theory Spec2Isabelle
  imports Complex_Main "HOL-Library.AList" "HOL-Library.List_Lexorder" "HOL-Library.Char_ord"
begin

section \<open>Python values and library functions used by the converter\<close>

text \<open>
  The converter (\<^verbatim>\<open>convert_fitbit_to_garmin.py\<close>) is modelled as pure functions over the
  parsed contents of the export files. Conventions:
  \<^item> a Python \<^verbatim>\<open>float\<close> is a \<^typ>\<open>real\<close> (exact arithmetic), a Python \<^verbatim>\<open>int\<close> an \<^typ>\<open>int\<close>;
  \<^item> a \<^verbatim>\<open>str\<close> is a \<^typ>\<open>string\<close>;
  \<^item> a function that may raise returns \<open>py_error + 'a\<close>, and a \<^verbatim>\<open>try/except\<close> that
    returns \<^verbatim>\<open>None\<close> is an \<open>option\<close>;
  \<^item> a \<^verbatim>\<open>dict\<close> that is iterated is an association list in insertion order
    (\<^const>\<open>AList.update\<close> replaces in place or appends, as Python does); a row of
    \<^verbatim>\<open>csv.DictReader\<close>, which is only read with \<^verbatim>\<open>.get\<close>, is a map;
  \<^item> \<^verbatim>\<open>sorted(glob.glob(...))\<close> is the list of the matching files in path order, given
    as the input.
\<close>

datatype py_error = ValueError | TypeError | OverflowError | OSError

subsection \<open>Strings\<close>

text \<open>The ASCII characters that \<^verbatim>\<open>str.strip()\<close> removes.\<close>

definition is_space :: "char \<Rightarrow> bool" where
  "is_space c = (c \<in> set [CHR '' '', CHR 0x09, CHR 0x0A, CHR 0x0B, CHR 0x0C, CHR 0x0D,
                            CHR 0x1C, CHR 0x1D, CHR 0x1E, CHR 0x1F])"

definition strip :: "string \<Rightarrow> string" where
  "strip s = rev (dropWhile is_space (rev (dropWhile is_space s)))"

text \<open>\<^verbatim>\<open>s.replace('Z', '+00:00')\<close>: every occurrence.\<close>

definition replace_Z :: "string \<Rightarrow> string" where
  "replace_Z s = concat (map (\<lambda>c. if c = CHR ''Z'' then ''+00:00'' else [c]) s)"

text \<open>\<^verbatim>\<open>s.replace(' ', 'T', 1)\<close>: the first occurrence only.\<close>

fun replace_first_space :: "string \<Rightarrow> string" where
  "replace_first_space [] = []"
| "replace_first_space (c # cs) =
     (if c = CHR '' '' then CHR ''T'' # cs else c # replace_first_space cs)"

text \<open>\<^verbatim>\<open>s.rsplit('+', 1)\<close> for a string that holds a \<^verbatim>\<open>+\<close>: the text before the last
  \<^verbatim>\<open>+\<close> and the text after it.\<close>

definition rsplit_plus :: "string \<Rightarrow> string \<times> string" where
  "rsplit_plus s =
     (let tz = rev (takeWhile (\<lambda>c. c \<noteq> CHR ''+'') (rev s));
          base = rev (drop 1 (dropWhile (\<lambda>c. c \<noteq> CHR ''+'') (rev s)))
      in (base, tz))"

definition is_digit :: "char \<Rightarrow> bool" where
  "is_digit c = (c \<in> set ''0123456789'')"

definition digit_val :: "char \<Rightarrow> nat" where
  "digit_val c = of_char c - 48"

definition digit_char :: "nat \<Rightarrow> char" where
  "digit_char n = ''0123456789'' ! n"

definition digits_val :: "string \<Rightarrow> nat" where
  "digits_val s = foldl (\<lambda>a c. 10 * a + digit_val c) 0 s"

definition all_digits :: "string \<Rightarrow> bool" where
  "all_digits s = (s \<noteq> [] \<and> list_all is_digit s)"

text \<open>Zero-padded decimal fields, as \<^verbatim>\<open>strftime\<close> writes them.\<close>

definition pad2 :: "nat \<Rightarrow> string" where
  "pad2 n = [digit_char (n div 10 mod 10), digit_char (n mod 10)]"

definition pad4 :: "nat \<Rightarrow> string" where
  "pad4 n = [digit_char (n div 1000 mod 10), digit_char (n div 100 mod 10),
             digit_char (n div 10 mod 10), digit_char (n mod 10)]"

subsection \<open>Numbers\<close>

text \<open>
  \<^verbatim>\<open>float(s)\<close> on a string: surrounding whitespace is stripped, then an optional sign and
  a decimal numeral with at least one digit (\<^verbatim>\<open>12\<close>, \<^verbatim>\<open>12.5\<close>, \<^verbatim>\<open>12.\<close>, \<^verbatim>\<open>.5\<close>). Exponents,
  \<^verbatim>\<open>inf\<close>, \<^verbatim>\<open>nan\<close> and digit-group underscores are outside the modelled grammar. Any
  other text is the \<^verbatim>\<open>ValueError\<close> of the source.
\<close>

definition unsigned_float :: "string \<Rightarrow> real option" where
  "unsigned_float s =
     (let ip = takeWhile (\<lambda>c. c \<noteq> CHR ''.'') s;
          rest = dropWhile (\<lambda>c. c \<noteq> CHR ''.'') s;
          fp = drop 1 rest
      in if list_all is_digit ip \<and> list_all is_digit fp \<and> (ip \<noteq> [] \<or> fp \<noteq> [])
         then Some (of_nat (digits_val ip) + of_nat (digits_val fp) / 10 ^ length fp)
         else None)"

definition float_of_str :: "string \<Rightarrow> py_error + real" where
  "float_of_str s =
     (case strip s of
        [] \<Rightarrow> Inl ValueError
      | c # cs \<Rightarrow>
          if c = CHR ''-'' then (case unsigned_float cs of None \<Rightarrow> Inl ValueError
                                 | Some x \<Rightarrow> Inr (- x))
          else if c = CHR ''+'' then (case unsigned_float cs of None \<Rightarrow> Inl ValueError
                                      | Some x \<Rightarrow> Inr x)
          else (case unsigned_float (c # cs) of None \<Rightarrow> Inl ValueError
                | Some x \<Rightarrow> Inr x))"

text \<open>\<^verbatim>\<open>int(s)\<close> on a string: stripped, an optional sign, then decimal digits.\<close>

definition int_of_str :: "string \<Rightarrow> py_error + int" where
  "int_of_str s =
     (case strip s of
        [] \<Rightarrow> Inl ValueError
      | c # cs \<Rightarrow>
          if c = CHR ''-'' then (if all_digits cs then Inr (- int (digits_val cs))
                                 else Inl ValueError)
          else if c = CHR ''+'' then (if all_digits cs then Inr (int (digits_val cs))
                                      else Inl ValueError)
          else (if all_digits (c # cs) then Inr (int (digits_val (c # cs)))
                else Inl ValueError))"

text \<open>\<^verbatim>\<open>int(x)\<close> on a float truncates toward zero.\<close>

definition trunc :: "real \<Rightarrow> int" where
  "trunc x = (if 0 \<le> x then \<lfloor>x\<rfloor> else \<lceil>x\<rceil>)"

text \<open>\<^verbatim>\<open>round(x)\<close> and \<^verbatim>\<open>round(x, n)\<close>: to the nearest, ties to the even neighbour.\<close>

definition py_round0 :: "real \<Rightarrow> int" where
  "py_round0 x =
     (let f = \<lfloor>x\<rfloor>; r = x - of_int f
      in if r < 1 / 2 then f else if 1 / 2 < r then f + 1
         else if even f then f else f + 1)"

definition py_round :: "nat \<Rightarrow> real \<Rightarrow> real" where
  "py_round n x = of_int (py_round0 (x * 10 ^ n)) / 10 ^ n"

text \<open>
  A value that the source converts with \<^verbatim>\<open>float(...)\<close>: the cell's text, the number
  \<^verbatim>\<open>0\<close> that \<^verbatim>\<open>.get(col, 0)\<close> supplies for a missing column, a JSON number, or
  \<^verbatim>\<open>None\<close> (a JSON \<^verbatim>\<open>null\<close>), on which \<^verbatim>\<open>float\<close> raises \<^verbatim>\<open>TypeError\<close>.
\<close>

datatype pyval = PStr string | PNum real | PNone

fun py_float :: "pyval \<Rightarrow> py_error + real" where
  "py_float (PStr s) = float_of_str s"
| "py_float (PNum x) = Inr x"
| "py_float PNone = Inl TypeError"

text \<open>The cast \<^verbatim>\<open>lambda x: int(float(x))\<close>.\<close>

definition int_float :: "pyval \<Rightarrow> py_error + int" where
  "int_float v = (case py_float v of Inl e \<Rightarrow> Inl e | Inr x \<Rightarrow> Inr (trunc x))"

subsection \<open>Calendar dates\<close>

datatype date = Date (year: nat) (month: nat) (day: nat)

definition is_leap :: "nat \<Rightarrow> bool" where
  "is_leap y = (y mod 4 = 0 \<and> (y mod 100 \<noteq> 0 \<or> y mod 400 = 0))"

definition days_in_month :: "nat \<Rightarrow> nat \<Rightarrow> nat" where
  "days_in_month y m =
     (if m = 2 then (if is_leap y then 29 else 28)
      else if m \<in> {4, 6, 9, 11} then 30 else 31)"

definition valid_date :: "nat \<Rightarrow> nat \<Rightarrow> nat \<Rightarrow> bool" where
  "valid_date y m d =
     (1 \<le> y \<and> y \<le> 9999 \<and> 1 \<le> m \<and> m \<le> 12 \<and> 1 \<le> d \<and> d \<le> days_in_month y m)"

text \<open>The constructor \<^verbatim>\<open>date(y, m, d)\<close>, which raises \<^verbatim>\<open>ValueError\<close> out of range.\<close>

definition mk_date :: "nat \<Rightarrow> nat \<Rightarrow> nat \<Rightarrow> date option" where
  "mk_date y m d = (if valid_date y m d then Some (Date y m d) else None)"

text \<open>Comparison of dates, as in \<^verbatim>\<open>start_date <= d <= end_date\<close>.\<close>

definition date_le :: "date \<Rightarrow> date \<Rightarrow> bool" where
  "date_le a b =
     (year a < year b \<or>
      (year a = year b \<and> (month a < month b \<or> (month a = month b \<and> day a \<le> day b))))"

text \<open>\<^verbatim>\<open>d.strftime('%Y-%m-%d')\<close>.\<close>

definition strftime_ymd :: "date \<Rightarrow> string" where
  "strftime_ymd d = pad4 (year d) @ ''-'' @ pad2 (month d) @ ''-'' @ pad2 (day d)"

subsection \<open>\<^verbatim>\<open>strptime\<close> with the formats \<^verbatim>\<open>%Y-%m-%d\<close> and \<^verbatim>\<open>%m/%d/%y\<close>\<close>

text \<open>
  \<^verbatim>\<open>strptime\<close> matches the whole string against the regular expression of the format:
  \<^verbatim>\<open>%Y\<close> is \<^verbatim>\<open>\d\d\d\d\<close>, \<^verbatim>\<open>%y\<close> is \<^verbatim>\<open>\d\d\<close>, \<^verbatim>\<open>%m\<close> is \<^verbatim>\<open>1[0-2]|0[1-9]|[1-9]\<close> and \<^verbatim>\<open>%d\<close> is
  \<^verbatim>\<open>3[01]|[12]\d|0[1-9]|[1-9]| [1-9]\<close>. A two-digit year up to 68 is in 2000-2068, a
  larger one in 1969-1999. No match, or a day that the month does not have, is
  \<^verbatim>\<open>ValueError\<close>, here \<open>None\<close>.
\<close>

fun strp_month :: "string \<Rightarrow> nat option" where
  "strp_month [a, b] =
     (if a = CHR ''1'' \<and> b \<in> set ''012'' then Some (10 + digit_val b)
      else if a = CHR ''0'' \<and> b \<in> set ''123456789'' then Some (digit_val b)
      else None)"
| "strp_month [a] = (if a \<in> set ''123456789'' then Some (digit_val a) else None)"
| "strp_month _ = None"

fun strp_day :: "string \<Rightarrow> nat option" where
  "strp_day [a, b] =
     (if a = CHR ''3'' \<and> b \<in> set ''01'' then Some (30 + digit_val b)
      else if a \<in> set ''12'' \<and> is_digit b then Some (10 * digit_val a + digit_val b)
      else if (a = CHR ''0'' \<or> a = CHR '' '') \<and> b \<in> set ''123456789''
        then Some (digit_val b)
      else None)"
| "strp_day [a] = (if a \<in> set ''123456789'' then Some (digit_val a) else None)"
| "strp_day _ = None"

definition strptime_Ymd :: "string \<Rightarrow> date option" where
  "strptime_Ymd s =
     (let yf = take 4 s; r1 = drop 4 s
      in if length yf = 4 \<and> list_all is_digit yf \<and> take 1 r1 = ''-'' then
           (let r2 = drop 1 r1;
                mf = takeWhile (\<lambda>c. c \<noteq> CHR ''-'') r2;
                r3 = dropWhile (\<lambda>c. c \<noteq> CHR ''-'') r2
            in if take 1 r3 = ''-'' then
                 (case (strp_month mf, strp_day (drop 1 r3)) of
                    (Some m, Some d) \<Rightarrow> mk_date (digits_val yf) m d
                  | _ \<Rightarrow> None)
               else None)
         else None)"

definition year_of_yy :: "nat \<Rightarrow> nat" where
  "year_of_yy y = (if y \<le> 68 then 2000 + y else 1900 + y)"

definition strptime_mdy :: "string \<Rightarrow> date option" where
  "strptime_mdy s =
     (let mf = takeWhile (\<lambda>c. c \<noteq> CHR ''/'') s;
          r1 = dropWhile (\<lambda>c. c \<noteq> CHR ''/'') s
      in if take 1 r1 = ''/'' then
           (let r2 = drop 1 r1;
                df = takeWhile (\<lambda>c. c \<noteq> CHR ''/'') r2;
                r3 = dropWhile (\<lambda>c. c \<noteq> CHR ''/'') r2
            in if take 1 r3 = ''/'' then
                 (let yf = drop 1 r3
                  in if length yf = 2 \<and> list_all is_digit yf then
                       (case (strp_month mf, strp_day df) of
                          (Some m, Some d) \<Rightarrow> mk_date (year_of_yy (digits_val yf)) m d
                        | _ \<Rightarrow> None)
                     else None)
               else None)
         else None)"

subsection \<open>\<^verbatim>\<open>datetime.fromisoformat\<close>\<close>

text \<open>
  A \<^verbatim>\<open>datetime\<close>: the wall-clock fields and the UTC offset in microseconds (\<open>None\<close> for
  a naive value).
\<close>

datatype datetime =
  Datetime (dt_date: date) (dt_hour: nat) (dt_minute: nat) (dt_second: nat)
           (dt_micro: nat) (dt_tz: "int option")

text \<open>
  \<^verbatim>\<open>fromisoformat\<close> is modelled with the grammar its documentation gives (the formats
  that \<^verbatim>\<open>isoformat()\<close> emits):
  \<^verbatim>\<open>YYYY-MM-DD[*HH[:MM[:SS[.fff[fff]]]][+HH:MM[:SS[.ffffff]]]]\<close>, where \<^verbatim>\<open>*\<close> is any one
  character and the offset sign is \<^verbatim>\<open>+\<close> or \<^verbatim>\<open>-\<close>. Everything else is \<^verbatim>\<open>ValueError\<close>, here
  \<open>None\<close>.
\<close>

definition num_field :: "nat \<Rightarrow> string \<Rightarrow> nat option" where
  "num_field n s = (if length s = n \<and> list_all is_digit s then Some (digits_val s) else None)"

definition parse_hh_mm_ss_ff :: "string \<Rightarrow> (nat \<times> nat \<times> nat \<times> nat) option" where
  "parse_hh_mm_ss_ff s =
     (let n = length s
      in if n \<notin> {2, 5, 8, 12, 15} then None
         else if (5 \<le> n \<and> s ! 2 \<noteq> CHR '':'') \<or> (8 \<le> n \<and> s ! 5 \<noteq> CHR '':'') \<or>
                 (12 \<le> n \<and> s ! 8 \<noteq> CHR ''.'') then None
         else
           (case (num_field 2 (take 2 s),
                  if 5 \<le> n then num_field 2 (take 2 (drop 3 s)) else Some 0,
                  if 8 \<le> n then num_field 2 (take 2 (drop 6 s)) else Some 0,
                  if n = 12 then map_option (\<lambda>f. f * 1000) (num_field 3 (drop 9 s))
                  else if n = 15 then num_field 6 (drop 9 s) else Some 0) of
              (Some h, Some m, Some sec, Some us) \<Rightarrow> Some (h, m, sec, us)
            | _ \<Rightarrow> None))"

definition is_sign :: "char \<Rightarrow> bool" where
  "is_sign c = (c = CHR ''+'' \<or> c = CHR ''-'')"

definition parse_isoformat_time :: "date \<Rightarrow> string \<Rightarrow> datetime option" where
  "parse_isoformat_time dd t =
     (let tpart = takeWhile (\<lambda>c. \<not> is_sign c) t;
          tzpart = dropWhile (\<lambda>c. \<not> is_sign c) t
      in case parse_hh_mm_ss_ff tpart of
           None \<Rightarrow> None
         | Some (h, mi, sec, us) \<Rightarrow>
             if \<not> (h < 24 \<and> mi < 60 \<and> sec < 60) then None
             else if tzpart = [] then Some (Datetime dd h mi sec us None)
             else if length tzpart \<notin> {6, 9, 16} then None
             else
               (case parse_hh_mm_ss_ff (drop 1 tzpart) of
                  None \<Rightarrow> None
                | Some (th, tm, ts, tus) \<Rightarrow>
                    (let mag = (int th * 3600 + int tm * 60 + int ts) * 1000000 + int tus;
                         off = (if take 1 tzpart = ''-'' then - mag else mag)
                     in if mag < 86400 * 1000000
                        then Some (Datetime dd h mi sec us (Some off)) else None)))"

definition fromisoformat :: "string \<Rightarrow> datetime option" where
  "fromisoformat s =
     (let ds = take 10 s
      in if length ds \<noteq> 10 \<or> ds ! 4 \<noteq> CHR ''-'' \<or> ds ! 7 \<noteq> CHR ''-'' then None
         else
           (case (num_field 4 (take 4 ds), num_field 2 (take 2 (drop 5 ds)),
                  num_field 2 (drop 8 ds)) of
              (Some y, Some m, Some d) \<Rightarrow>
                (case mk_date y m d of
                   None \<Rightarrow> None
                 | Some dd \<Rightarrow>
                     if length s = 10 then Some (Datetime dd 0 0 0 0 None)
                     else parse_isoformat_time dd (drop 11 s))
            | _ \<Rightarrow> None))"

section \<open>Date parsing utilities\<close>

text \<open>
  \<^verbatim>\<open>parse_date\<close>: the argument is always the text of a cell or of a JSON field here, so
  the branch for a \<^verbatim>\<open>date\<close> object is never taken. Every \<^verbatim>\<open>ValueError\<close> is caught and
  the result is \<^verbatim>\<open>None\<close>.
\<close>

definition parse_date :: "string \<Rightarrow> date option" where
  "parse_date dt_str =
     (let s = strip dt_str
      in if CHR ''T'' \<in> set s then map_option dt_date (fromisoformat (replace_Z s))
         else
           (case strptime_Ymd s of
              Some d \<Rightarrow> Some d
            | None \<Rightarrow>
                (case strptime_mdy s of
                   Some d \<Rightarrow> Some d
                 | None \<Rightarrow> map_option dt_date (fromisoformat s))))"

text \<open>
  \<^verbatim>\<open>parse_sleep_datetime\<close>: \<open>sleep_iso_text\<close> is the value of \<^verbatim>\<open>dt_str\<close> when the
  \<^verbatim>\<open>if/elif\<close> is left, before \<^verbatim>\<open>replace('Z', '+00:00')\<close> and \<^verbatim>\<open>fromisoformat\<close>.
\<close>

definition sleep_iso_text :: "string \<Rightarrow> string" where
  "sleep_iso_text dt_str =
     (let s = strip dt_str
      in if CHR ''+'' \<in> set s \<and> CHR ''T'' \<notin> set s then
           (let base = fst (rsplit_plus s);
                tz = snd (rsplit_plus s);
                s' = (if length tz = 4 then base @ ''+'' @ take 2 tz @ '':'' @ drop 2 tz
                      else s)
            in replace_first_space s')
         else if CHR ''T'' \<notin> set s \<and> CHR ''+'' \<notin> set s then replace_first_space s
         else s)"

definition parse_sleep_datetime :: "string \<Rightarrow> datetime option" where
  "parse_sleep_datetime dt_str = fromisoformat (replace_Z (sleep_iso_text dt_str))"

subsection \<open>Arithmetic on \<^verbatim>\<open>datetime\<close>\<close>

text \<open>The proleptic Gregorian ordinal of a date and its inverse, as in \<^verbatim>\<open>datetime.py\<close>.\<close>

definition dim :: "bool \<Rightarrow> nat \<Rightarrow> nat" where
  "dim leap m = (if m = 2 then (if leap then 29 else 28)
                 else if m \<in> {4, 6, 9, 11} then 30 else 31)"

definition days_before_month :: "bool \<Rightarrow> nat \<Rightarrow> int" where
  "days_before_month leap m = int (\<Sum>k\<leftarrow>[1..<m]. dim leap k)"

definition days_before_year :: "nat \<Rightarrow> int" where
  "days_before_year y =
     (let y1 = int y - 1 in y1 * 365 + y1 div 4 - y1 div 100 + y1 div 400)"

definition ymd2ord :: "date \<Rightarrow> int" where
  "ymd2ord d =
     days_before_year (year d) + days_before_month (is_leap (year d)) (month d) + int (day d)"

definition ord2ymd :: "int \<Rightarrow> date" where
  "ord2ymd n0 =
     (let n = n0 - 1;
          n400 = n div 146097; n = n mod 146097;
          n100 = n div 36524; n = n mod 36524;
          n4 = n div 1461; n = n mod 1461;
          n1 = n div 365; n = n mod 365;
          y = n400 * 400 + 1 + n100 * 100 + n4 * 4 + n1
      in if n1 = 4 \<or> n100 = 4 then Date (nat (y - 1)) 12 31
         else
           (let leapyear = (n1 = 3 \<and> (n4 \<noteq> 24 \<or> n100 = 3));
                m = nat ((n + 50) div 32);
                preceding = days_before_month leapyear m
            in if preceding > n
               then Date (nat y) (m - 1)
                      (nat (n - (preceding - int (dim leapyear (m - 1))) + 1))
               else Date (nat y) m (nat (n - preceding + 1))))"

text \<open>
  \<^verbatim>\<open>dt + timedelta(hours=h)\<close>: the wall-clock fields move, the offset stays; a result
  outside the years 1 to 9999 is \<^verbatim>\<open>OverflowError\<close>.
\<close>

definition dt_add_hours :: "datetime \<Rightarrow> int \<Rightarrow> py_error + datetime" where
  "dt_add_hours dt h =
     (let secs = ymd2ord (dt_date dt) * 86400 + int (dt_hour dt) * 3600 +
                 int (dt_minute dt) * 60 + int (dt_second dt) + h * 3600;
          days = secs div 86400;
          r = secs mod 86400
      in if 0 < days \<and> days \<le> 3652059 then
           Inr (Datetime (ord2ymd days) (nat (r div 3600)) (nat (r mod 3600 div 60))
                  (nat (r mod 60)) (dt_micro dt) (dt_tz dt))
         else Inl OverflowError)"

text \<open>
  \<^verbatim>\<open>(e_dt - s_dt).total_seconds() / 60\<close>: two naive values are compared by their fields,
  two aware ones as instants, and mixing them is \<^verbatim>\<open>TypeError\<close>.
\<close>

definition dt_micros :: "datetime \<Rightarrow> int" where
  "dt_micros dt =
     (ymd2ord (dt_date dt) * 86400 + int (dt_hour dt) * 3600 + int (dt_minute dt) * 60 +
      int (dt_second dt)) * 1000000 + int (dt_micro dt)"

definition dt_diff_minutes :: "datetime \<Rightarrow> datetime \<Rightarrow> py_error + real" where
  "dt_diff_minutes e s =
     (case (dt_tz e, dt_tz s) of
        (None, None) \<Rightarrow> Inr (real_of_int (dt_micros e - dt_micros s) / 60000000)
      | (Some a, Some b) \<Rightarrow>
          Inr (real_of_int ((dt_micros e - a) - (dt_micros s - b)) / 60000000)
      | _ \<Rightarrow> Inl TypeError)"

text \<open>\<^verbatim>\<open>dt.strftime("%m/%d/%Y %H:%M")\<close>.\<close>

definition strftime_mdYHM :: "datetime \<Rightarrow> string" where
  "strftime_mdYHM dt =
     pad2 (month (dt_date dt)) @ ''/'' @ pad2 (day (dt_date dt)) @ ''/'' @
     pad4 (year (dt_date dt)) @ '' '' @ pad2 (dt_hour dt) @ '':'' @ pad2 (dt_minute dt)"

section \<open>The converter\<close>

subsection \<open>Inputs, dictionaries and the loops over files\<close>

text \<open>
  The converter object: only the date window matters here (the directories decide which
  files are read, and the files are the input of the model).
\<close>

record converter =
  start_date :: date
  end_date :: date

text \<open>The test \<^verbatim>\<open>self.start_date <= d <= self.end_date\<close>.\<close>

definition in_window :: "converter \<Rightarrow> date \<Rightarrow> bool" where
  "in_window c d = (date_le (start_date c) d \<and> date_le d (end_date c))"

text \<open>
  A row of \<^verbatim>\<open>csv.DictReader\<close>: the text of each column that the file has.
  \<open>get_str\<close> is \<^verbatim>\<open>row.get(col, default)\<close> with a text default and \<open>get_num\<close> is
  \<^verbatim>\<open>row.get(col, 0)\<close>, whose result goes to a numeric cast.
\<close>

type_synonym row = "string \<rightharpoonup> string"

definition get_str :: "row \<Rightarrow> string \<Rightarrow> string \<Rightarrow> string" where
  "get_str r col dflt = (case r col of None \<Rightarrow> dflt | Some v \<Rightarrow> v)"

definition get_num :: "row \<Rightarrow> string \<Rightarrow> pyval" where
  "get_num r col = (case r col of None \<Rightarrow> PNum 0 | Some v \<Rightarrow> PStr v)"

text \<open>
  A file of the export: one that cannot be opened or decoded (the exception is raised
  before any record is seen), or its records in order. The files of a pattern come with
  their paths, in the order of \<^verbatim>\<open>sorted(glob.glob(...))\<close>.
\<close>

datatype 'r src_file = Unreadable | Records "'r list"

type_synonym 'r src_files = "(string \<times> 'r src_file) list"

type_synonym warnings = "(string \<times> py_error) list"

text \<open>
  Dictionaries in insertion order. \<open>get_or\<close> is \<^verbatim>\<open>d.get(k, default)\<close>; \<open>touch\<close> is
  the read \<^verbatim>\<open>d[k]\<close> of a \<^verbatim>\<open>defaultdict\<close>, which stores the default under a missing key.
\<close>

definition keys :: "('k \<times> 'v) list \<Rightarrow> 'k list" where
  "keys al = map fst al"

definition get_or :: "('k \<times> 'v) list \<Rightarrow> 'k \<Rightarrow> 'v \<Rightarrow> 'v" where
  "get_or al k dflt = (case map_of al k of None \<Rightarrow> dflt | Some v \<Rightarrow> v)"

definition touch :: "'k \<Rightarrow> 'v \<Rightarrow> ('k \<times> 'v) list \<Rightarrow> ('k \<times> 'v) list" where
  "touch k dflt al = (if k \<in> set (keys al) then al else al @ [(k, dflt)])"

text \<open>
  The body of a \<^verbatim>\<open>for row in ...\<close> loop is a step on the accumulator that may raise;
  the accumulator it returns with the error is the one the exception leaves behind.
  \<open>for_rows\<close> stops at the first error. \<open>for_files\<close> is the loop over the files of a
  pattern with its \<^verbatim>\<open>try/except Exception\<close>: the error is recorded as a warning and the
  next file is read.
\<close>

fun for_rows :: "('r \<Rightarrow> 'a \<Rightarrow> 'a \<times> py_error option) \<Rightarrow> 'r list \<Rightarrow> 'a \<Rightarrow> 'a \<times> py_error option"
  where
  "for_rows step [] acc = (acc, None)"
| "for_rows step (r # rs) acc =
     (case step r acc of
        (acc', Some e) \<Rightarrow> (acc', Some e)
      | (acc', None) \<Rightarrow> for_rows step rs acc')"

definition read_file :: "('r \<Rightarrow> 'a \<Rightarrow> 'a \<times> py_error option) \<Rightarrow> 'r src_file \<Rightarrow> 'a \<Rightarrow> 'a \<times> py_error option"
  where
  "read_file step f acc =
     (case f of Unreadable \<Rightarrow> (acc, Some OSError) | Records rs \<Rightarrow> for_rows step rs acc)"

fun for_files :: "('r \<Rightarrow> 'a \<Rightarrow> 'a \<times> py_error option) \<Rightarrow> 'r src_files \<Rightarrow> 'a \<times> warnings \<Rightarrow> 'a \<times> warnings"
  where
  "for_files step [] st = st"
| "for_files step ((path, f) # fs) (acc, ws) =
     (case read_file step f acc of
        (acc', Some e) \<Rightarrow> for_files step fs (acc', ws @ [(path, e)])
      | (acc', None) \<Rightarrow> for_files step fs (acc', ws))"

text \<open>The date of a row when it parses and lies in the window, as every loop tests it.\<close>

definition window_date :: "converter \<Rightarrow> string \<Rightarrow> date option" where
  "window_date c dt_str =
     (case parse_date dt_str of
        None \<Rightarrow> None
      | Some d \<Rightarrow> if in_window c d then Some d else None)"

subsection \<open>1. Body data (weight, BMI, fat)\<close>

text \<open>
  An entry of a \<^verbatim>\<open>weight-*.json\<close> file: the members that the source reads, \<open>None\<close> when
  the member is absent. The date, when present, is a JSON string.
\<close>

record weight_entry =
  date_member :: "string option"
  weight_member :: "pyval option"
  bmi_member :: "pyval option"
  fat_member :: "pyval option"

text \<open>\<^verbatim>\<open>entry.get(key, 0)\<close> and \<^verbatim>\<open>entry.get('date', '')\<close>.\<close>

definition member_num :: "pyval option \<Rightarrow> pyval" where
  "member_num m = (case m of None \<Rightarrow> PNum 0 | Some v \<Rightarrow> v)"

definition member_str :: "string option \<Rightarrow> string" where
  "member_str m = (case m of None \<Rightarrow> [] | Some v \<Rightarrow> v)"

record body_entry =
  weight :: real
  bmi :: real
  fat :: real

type_synonym body_data = "(string \<times> body_entry) list"

text \<open>Source 1: the JSON entries (weight in lbs, with BMI and fat).\<close>

definition body_json_step :: "converter \<Rightarrow> weight_entry \<Rightarrow> body_data \<Rightarrow> body_data \<times> py_error option"
  where
  "body_json_step c entry body =
     (case window_date c (member_str (date_member entry)) of
        None \<Rightarrow> (body, None)
      | Some d \<Rightarrow>
          (case py_float (member_num (weight_member entry)) of
             Inl e \<Rightarrow> (body, Some e)
           | Inr weight_lbs \<Rightarrow>
               (case py_float (member_num (bmi_member entry)) of
                  Inl e \<Rightarrow> (body, Some e)
                | Inr b \<Rightarrow>
                    (case py_float (member_num (fat_member entry)) of
                       Inl e \<Rightarrow> (body, Some e)
                     | Inr f \<Rightarrow>
                         (AList.update (strftime_ymd d)
                            \<lparr>weight = py_round 1 (weight_lbs * 0.453592),
                             bmi = py_round 1 b, fat = py_round 1 f\<rparr> body, None)))))"

text \<open>The fallback: the rows of \<^verbatim>\<open>weight.csv\<close> (weight in grams).\<close>

definition body_csv_step :: "converter \<Rightarrow> row \<Rightarrow> body_data \<Rightarrow> body_data \<times> py_error option"
  where
  "body_csv_step c r body =
     (case window_date c (get_str r ''timestamp'' []) of
        None \<Rightarrow> (body, None)
      | Some d \<Rightarrow>
          (case py_float (get_num r ''weight grams'') of
             Inl e \<Rightarrow> (body, Some e)
           | Inr weight_g \<Rightarrow>
               (AList.update (strftime_ymd d)
                  \<lparr>weight = py_round 1 (weight_g / 1000), bmi = 0, fat = 0\<rparr> body, None)))"

text \<open>The enrichment with the rows of the \<^verbatim>\<open>body_fat_*.csv\<close> files.\<close>

definition body_fat_step :: "converter \<Rightarrow> row \<Rightarrow> body_data \<Rightarrow> body_data \<times> py_error option"
  where
  "body_fat_step c r body =
     (case window_date c (get_str r ''timestamp'' []) of
        None \<Rightarrow> (body, None)
      | Some d \<Rightarrow>
          (case py_float (get_num r ''body fat percentage'') of
             Inl e \<Rightarrow> (body, Some e)
           | Inr f \<Rightarrow>
               (let date_str = strftime_ymd d
                in case map_of body date_str of
                     Some b \<Rightarrow> (AList.update date_str (b\<lparr>fat := py_round 1 f\<rparr>) body, None)
                   | None \<Rightarrow>
                       (AList.update date_str \<lparr>weight = 0, bmi = 0, fat = py_round 1 f\<rparr> body,
                        None))))"

text \<open>
  The accumulator after source 1, and after the fallback. The fallback has no
  \<^verbatim>\<open>try/except\<close>: an error in it leaves \<^verbatim>\<open>generate_body_csv\<close>.
\<close>

definition body_source1 :: "converter \<Rightarrow> weight_entry src_files \<Rightarrow> body_data \<times> warnings" where
  "body_source1 c json_files = for_files (body_json_step c) json_files ([], [])"

definition body_fallback :: "converter \<Rightarrow> row src_file option \<Rightarrow> body_data \<Rightarrow> py_error + body_data"
  where
  "body_fallback c weight_csv body =
     (if body \<noteq> [] then Inr body
      else
        (case weight_csv of
           None \<Rightarrow> Inr body
         | Some f \<Rightarrow>
             (case read_file (body_csv_step c) f body of
                (body', Some e) \<Rightarrow> Inl e
              | (body', None) \<Rightarrow> Inr body')))"

definition generate_body_csv ::
  "converter \<Rightarrow> weight_entry src_files \<Rightarrow> row src_file option \<Rightarrow> row src_files \<Rightarrow> py_error + body_data \<times> warnings"
  where
  "generate_body_csv c json_files weight_csv bf_files =
     (case body_source1 c json_files of
        (body1, ws1) \<Rightarrow>
          (case body_fallback c weight_csv body1 of
             Inl e \<Rightarrow> Inl e
           | Inr body2 \<Rightarrow> Inr (for_files (body_fat_step c) bf_files (body2, ws1))))"

text \<open>The data lines of \<^verbatim>\<open>garmin_body.csv\<close>: one for each key, in ascending order.\<close>

definition body_lines :: "body_data \<Rightarrow> (string \<times> body_entry) list" where
  "body_lines body =
     List.map_filter (\<lambda>date_str. map_option (Pair date_str) (map_of body date_str))
       (sort (keys body))"

text \<open>
  What the fallback gives for a date: the weight of an in-window row of \<^verbatim>\<open>weight.csv\<close>
  with that date, divided by 1000 and rounded to one decimal, and the BMI zero.
\<close>

definition from_fallback :: "converter \<Rightarrow> row list \<Rightarrow> string \<Rightarrow> body_entry \<Rightarrow> bool" where
  "from_fallback c rs ds e =
     (\<exists>r \<in> set rs. \<exists>d g. window_date c (get_str r ''timestamp'' []) = Some d \<and>
        strftime_ymd d = ds \<and> py_float (get_num r ''weight grams'') = Inr g \<and>
        weight e = py_round 1 (g / 1000) \<and> bmi e = 0)"

subsection \<open>2. Activities data (daily summaries)\<close>

type_synonym daily = "(string \<times> real) list"

text \<open>
  \<^verbatim>\<open>daily[key] += cast(row.get(value_col, 0))\<close> on a \<^verbatim>\<open>defaultdict(float)\<close>: the old
  value is read first (which stores \<^verbatim>\<open>0.0\<close> under a new key), then the cast is evaluated,
  then the sum is stored.
\<close>

definition aggregate_step ::
  "converter \<Rightarrow> string \<Rightarrow> (pyval \<Rightarrow> py_error + real) \<Rightarrow> row \<Rightarrow> daily \<Rightarrow> daily \<times> py_error option"
  where
  "aggregate_step c value_col cast r daily =
     (case window_date c (get_str r ''timestamp'' []) of
        None \<Rightarrow> (daily, None)
      | Some d \<Rightarrow>
          (let key = strftime_ymd d; daily1 = touch key 0 daily
           in case cast (get_num r value_col) of
                Inl e \<Rightarrow> (daily1, Some e)
              | Inr v \<Rightarrow> (AList.update key (get_or daily1 key 0 + v) daily1, None)))"

definition aggregate_csv ::
  "converter \<Rightarrow> row src_files \<Rightarrow> string \<Rightarrow> (pyval \<Rightarrow> py_error + real) \<Rightarrow> daily \<times> warnings"
  where
  "aggregate_csv c files value_col cast = for_files (aggregate_step c value_col cast) files ([], [])"

text \<open>The default cast \<^verbatim>\<open>float\<close> and the cast \<^verbatim>\<open>lambda x: int(float(x))\<close>.\<close>

definition cast_int :: "pyval \<Rightarrow> py_error + real" where
  "cast_int v = (case int_float v of Inl e \<Rightarrow> Inl e | Inr i \<Rightarrow> Inr (of_int i))"

type_synonym counts = "(string \<times> int) list"

text \<open>Active minutes: three dictionaries, updated in the order light, moderate, very.\<close>

definition active_step ::
  "converter \<Rightarrow> row \<Rightarrow> counts \<times> counts \<times> counts \<Rightarrow> (counts \<times> counts \<times> counts) \<times> py_error option"
  where
  "active_step c r st =
     (case st of (light, fairly, very) \<Rightarrow>
        (case window_date c (get_str r ''timestamp'' []) of
           None \<Rightarrow> (st, None)
         | Some d \<Rightarrow>
             (let ds = strftime_ymd d; light1 = touch ds 0 light
              in case int_float (get_num r ''light'') of
                   Inl e \<Rightarrow> ((light1, fairly, very), Some e)
                 | Inr l \<Rightarrow>
                     (let light2 = AList.update ds (get_or light1 ds 0 + l) light1;
                          fairly1 = touch ds 0 fairly
                      in case int_float (get_num r ''moderate'') of
                           Inl e \<Rightarrow> ((light2, fairly1, very), Some e)
                         | Inr m \<Rightarrow>
                             (let fairly2 = AList.update ds (get_or fairly1 ds 0 + m) fairly1;
                                  very1 = touch ds 0 very
                              in case int_float (get_num r ''very'') of
                                   Inl e \<Rightarrow> ((light2, fairly2, very1), Some e)
                                 | Inr v \<Rightarrow>
                                     ((light2, fairly2,
                                       AList.update ds (get_or very1 ds 0 + v) very1), None))))))"

text \<open>Sedentary minutes: the rows of \<^verbatim>\<open>activity_level_*.csv\<close> whose level is \<^verbatim>\<open>SEDENTARY\<close>.\<close>

definition sedentary_step :: "converter \<Rightarrow> row \<Rightarrow> counts \<Rightarrow> counts \<times> py_error option" where
  "sedentary_step c r sed =
     (case window_date c (get_str r ''timestamp'' []) of
        None \<Rightarrow> (sed, None)
      | Some d \<Rightarrow>
          if get_str r ''level'' [] = ''SEDENTARY''
          then (let ds = strftime_ymd d; sed1 = touch ds 0 sed
                in (AList.update ds (get_or sed1 ds 0 + 1) sed1, None))
          else (sed, None))"

record activity_line =
  al_date :: string
  al_calories :: int
  al_steps :: int
  al_distance :: real
  al_floors :: int
  al_sedentary :: int
  al_light :: int
  al_fairly :: int
  al_very :: int
  al_activity_calories :: int

record activity_files =
  steps_files :: "row src_files"
  calories_files :: "row src_files"
  distance_files :: "row src_files"
  floors_files :: "row src_files"
  active_minutes_files :: "row src_files"
  activity_level_files :: "row src_files"

text \<open>The accumulators of \<^verbatim>\<open>generate_activities_csv\<close>, in the order they are built.\<close>

record activity_acc =
  daily_steps :: daily
  daily_calories :: daily
  daily_distance :: daily
  daily_floors :: daily
  daily_light :: counts
  daily_fairly :: counts
  daily_very :: counts
  daily_sedentary :: counts

definition activity_accumulate :: "converter \<Rightarrow> activity_files \<Rightarrow> activity_acc \<times> warnings" where
  "activity_accumulate c fs =
     (case aggregate_csv c (steps_files fs) ''steps'' cast_int of (st, w1) \<Rightarrow>
      case aggregate_csv c (calories_files fs) ''calories'' py_float of (ca, w2) \<Rightarrow>
      case aggregate_csv c (distance_files fs) ''distance'' py_float of (di, w3) \<Rightarrow>
      case aggregate_csv c (floors_files fs) ''floors'' cast_int of (fl, w4) \<Rightarrow>
      case for_files (active_step c) (active_minutes_files fs) (([], [], []), []) of
        ((li, fa, ve), w5) \<Rightarrow>
      case for_files (sedentary_step c) (activity_level_files fs) ([], []) of (se, w6) \<Rightarrow>
        (\<lparr>daily_steps = st, daily_calories = ca, daily_distance = di, daily_floors = fl,
          daily_light = li, daily_fairly = fa, daily_very = ve, daily_sedentary = se\<rparr>,
         w1 @ w2 @ w3 @ w4 @ w5 @ w6))"

text \<open>\<^verbatim>\<open>sorted(set(steps keys + calories keys + distance keys))\<close>.\<close>

definition all_dates :: "activity_acc \<Rightarrow> string list" where
  "all_dates a =
     sort (remdups (keys (daily_steps a) @ keys (daily_calories a) @ keys (daily_distance a)))"

definition activity_line_of :: "activity_acc \<Rightarrow> string \<Rightarrow> activity_line" where
  "activity_line_of a ds =
     (let cal = py_round0 (get_or (daily_calories a) ds 0);
          steps = trunc (get_or (daily_steps a) ds 0);
          dist_km = py_round 2 (get_or (daily_distance a) ds 0 / 1000);
          floors = trunc (get_or (daily_floors a) ds 0);
          sedentary = get_or (daily_sedentary a) ds 0;
          light = get_or (daily_light a) ds 0;
          fairly = get_or (daily_fairly a) ds 0;
          very = get_or (daily_very a) ds 0;
          act_cal = (if cal > 0 then max 0 (cal - 1500) else 0)
      in \<lparr>al_date = ds, al_calories = cal, al_steps = steps, al_distance = dist_km,
          al_floors = floors, al_sedentary = sedentary, al_light = light,
          al_fairly = fairly, al_very = very, al_activity_calories = act_cal\<rparr>)"

text \<open>
  \<^verbatim>\<open>generate_activities_csv\<close>: the data lines of \<^verbatim>\<open>garmin_activities.csv\<close>, the returned
  \<^verbatim>\<open>all_dates\<close> and the warnings.
\<close>

definition generate_activities_csv ::
  "converter \<Rightarrow> activity_files \<Rightarrow> activity_line list \<times> string list \<times> warnings" where
  "generate_activities_csv c fs =
     (case activity_accumulate c fs of
        (a, ws) \<Rightarrow> (map (activity_line_of a) (all_dates a), all_dates a, ws))"

subsection \<open>3. Sleep data\<close>

text \<open>A session of \<^verbatim>\<open>UserSleeps_*.csv\<close> as the source stores it in \<^verbatim>\<open>sleeps\<close>.\<close>

record session =
  s_start :: string
  s_end :: string
  s_start_dt :: datetime
  s_end_dt :: "datetime option"
  s_minutes_asleep :: int
  s_minutes_awake :: int
  s_minutes_in_period :: int
  s_start_offset :: string
  s_end_offset :: string

type_synonym sleeps = "(string \<times> session) list"

text \<open>
  The entry is built before it is stored, so a cast that raises stores nothing; the casts
  are evaluated in the order of the dictionary display.
\<close>

definition sleep_step :: "converter \<Rightarrow> row \<Rightarrow> sleeps \<Rightarrow> sleeps \<times> py_error option" where
  "sleep_step c r sl =
     (case parse_sleep_datetime (get_str r ''sleep_start'' []) of
        None \<Rightarrow> (sl, None)
      | Some start_dt \<Rightarrow>
          if \<not> in_window c (dt_date start_dt) then (sl, None)
          else
            (case int_float (get_num r ''minutes_asleep'') of
               Inl e \<Rightarrow> (sl, Some e)
             | Inr asleep \<Rightarrow>
                 (case int_float (get_num r ''minutes_awake'') of
                    Inl e \<Rightarrow> (sl, Some e)
                  | Inr awake \<Rightarrow>
                      (case int_float (get_num r ''minutes_in_sleep_period'') of
                         Inl e \<Rightarrow> (sl, Some e)
                       | Inr period \<Rightarrow>
                           (AList.update (get_str r ''sleep_id'' [])
                              \<lparr>s_start = get_str r ''sleep_start'' [],
                               s_end = get_str r ''sleep_end'' [],
                               s_start_dt = start_dt,
                               s_end_dt = parse_sleep_datetime (get_str r ''sleep_end'' []),
                               s_minutes_asleep = asleep,
                               s_minutes_awake = awake,
                               s_minutes_in_period = period,
                               s_start_offset = get_str r ''start_utc_offset'' ''+01:00'',
                               s_end_offset = get_str r ''end_utc_offset'' ''+01:00''\<rparr> sl,
                            None)))))"

text \<open>The stage totals of a session, from \<^verbatim>\<open>UserSleepStages_*.csv\<close>.\<close>

record stages =
  st_rem :: real
  st_light :: real
  st_deep :: real
  st_awake_count :: int

definition no_stages :: stages where
  "no_stages = \<lparr>st_rem = 0, st_light = 0, st_deep = 0, st_awake_count = 0\<rparr>"

type_synonym sleep_stages = "(string \<times> stages) list"

definition stage_step :: "sleeps \<Rightarrow> row \<Rightarrow> sleep_stages \<Rightarrow> sleep_stages \<times> py_error option" where
  "stage_step sl r st =
     (let sleep_id = get_str r ''sleep_id'' []
      in if sleep_id \<notin> set (keys sl) then (st, None)
         else
           (let stage_type = get_str r ''sleep_stage_type'' []
            in case parse_sleep_datetime (get_str r ''sleep_stage_start'' []) of
                 None \<Rightarrow> (st, None)
               | Some s_dt \<Rightarrow>
                   (case parse_sleep_datetime (get_str r ''sleep_stage_end'' []) of
                      None \<Rightarrow> (st, None)
                    | Some e_dt \<Rightarrow>
                        (case dt_diff_minutes e_dt s_dt of
                           Inl e \<Rightarrow> (st, Some e)
                         | Inr duration \<Rightarrow>
                             (let st1 = touch sleep_id no_stages st;
                                  cur = get_or st1 sleep_id no_stages
                              in if stage_type = ''REM'' then
                                   (AList.update sleep_id
                                      (cur\<lparr>st_rem := st_rem cur + duration\<rparr>) st1, None)
                                 else if stage_type = ''LIGHT'' then
                                   (AList.update sleep_id
                                      (cur\<lparr>st_light := st_light cur + duration\<rparr>) st1, None)
                                 else if stage_type = ''DEEP'' then
                                   (AList.update sleep_id
                                      (cur\<lparr>st_deep := st_deep cur + duration\<rparr>) st1, None)
                                 else if stage_type = ''AWAKE'' then
                                   (AList.update sleep_id
                                      (cur\<lparr>st_awake_count := st_awake_count cur + 1\<rparr>) st1,
                                    None)
                                 else (st, None))))))"

text \<open>
  The hours added for the local time:
  \<^verbatim>\<open>int(offset_str.replace(':', '')[:-2]) if offset_str else 0\<close>, and \<^verbatim>\<open>0\<close> when \<^verbatim>\<open>int\<close>
  raises.
\<close>

definition offset_hours :: "string \<Rightarrow> int" where
  "offset_hours offset_str =
     (if offset_str = [] then 0
      else
        (let t = filter (\<lambda>c. c \<noteq> CHR '':'') offset_str
         in case int_of_str (take (length t - 2) t) of Inl e \<Rightarrow> 0 | Inr h \<Rightarrow> h))"

record sleep_line =
  sl_start_time :: string
  sl_end_time :: string
  sl_minutes_asleep :: int
  sl_minutes_awake :: int
  sl_awakenings :: int
  sl_time_in_bed :: int
  sl_rem :: int
  sl_light :: int
  sl_deep :: int

text \<open>
  The line written for a session: none unless both \<^verbatim>\<open>start_dt\<close> and \<^verbatim>\<open>end_dt\<close> are set.
  The additions are not inside a \<^verbatim>\<open>try\<close>: an \<^verbatim>\<open>OverflowError\<close> leaves the function.
\<close>

definition sleep_line_of :: "session \<Rightarrow> stages \<Rightarrow> py_error + sleep_line option" where
  "sleep_line_of s stg =
     (case s_end_dt s of
        None \<Rightarrow> Inr None
      | Some end_dt \<Rightarrow>
          (case dt_add_hours (s_start_dt s) (offset_hours (s_start_offset s)) of
             Inl e \<Rightarrow> Inl e
           | Inr start_local \<Rightarrow>
               (case dt_add_hours end_dt (offset_hours (s_end_offset s)) of
                  Inl e \<Rightarrow> Inl e
                | Inr end_local \<Rightarrow>
                    Inr (Some
                      \<lparr>sl_start_time = strftime_mdYHM start_local,
                       sl_end_time = strftime_mdYHM end_local,
                       sl_minutes_asleep = s_minutes_asleep s,
                       sl_minutes_awake = s_minutes_awake s,
                       sl_awakenings = st_awake_count stg,
                       sl_time_in_bed = s_minutes_in_period s,
                       sl_rem = py_round0 (st_rem stg),
                       sl_light = py_round0 (st_light stg),
                       sl_deep = py_round0 (st_deep stg)\<rparr>))))"

text \<open>
  The loop \<^verbatim>\<open>for sleep_id in sorted(sleeps.keys(), key=lambda x: sleeps[x]['start'])\<close>
  (a stable sort), here over the entries themselves.
\<close>

fun sleep_lines :: "sleep_stages \<Rightarrow> (string \<times> session) list \<Rightarrow> py_error + sleep_line list" where
  "sleep_lines st [] = Inr []"
| "sleep_lines st ((sleep_id, s) # rest) =
     (case sleep_line_of s (get_or st sleep_id no_stages) of
        Inl e \<Rightarrow> Inl e
      | Inr None \<Rightarrow> sleep_lines st rest
      | Inr (Some l) \<Rightarrow>
          (case sleep_lines st rest of Inl e \<Rightarrow> Inl e | Inr ls \<Rightarrow> Inr (l # ls)))"

definition by_start :: "sleeps \<Rightarrow> (string \<times> session) list" where
  "by_start sl = sort_key (\<lambda>p. s_start (snd p)) sl"

text \<open>
  \<^verbatim>\<open>generate_sleep_csv\<close>: the returned \<^verbatim>\<open>sleeps\<close> (whose length is the reported number
  of sessions), the data lines of \<^verbatim>\<open>garmin_sleep.csv\<close> and the warnings.
\<close>

definition sleep_sessions :: "converter \<Rightarrow> row src_files \<Rightarrow> sleeps \<times> warnings" where
  "sleep_sessions c sleep_files = for_files (sleep_step c) sleep_files ([], [])"

definition generate_sleep_csv ::
  "converter \<Rightarrow> row src_files \<Rightarrow> row src_files \<Rightarrow> py_error + sleeps \<times> sleep_line list \<times> warnings"
  where
  "generate_sleep_csv c sleep_files stage_files =
     (case sleep_sessions c sleep_files of
        (sl, w1) \<Rightarrow>
          (case for_files (stage_step sl) stage_files ([], w1) of
             (st, w2) \<Rightarrow>
               (case sleep_lines st (by_start sl) of
                  Inl e \<Rightarrow> Inl e
                | Inr ls \<Rightarrow> Inr (sl, ls, w2))))"

subsection \<open>4. Supplementary data\<close>

text \<open>
  An entry of a supplementary table: the date and the copied cells, in the order of the
  keys. A cell stays text unless the source converts it.
\<close>

type_synonym supp_entry = "(string \<times> pyval) list"

definition daily_entry :: "converter \<Rightarrow> (string \<times> string) list \<Rightarrow> row \<Rightarrow> supp_entry option" where
  "daily_entry c value_cols r =
     (case window_date c (get_str r ''timestamp'' []) of
        None \<Rightarrow> None
      | Some d \<Rightarrow>
          Some ((''date'', PStr (strftime_ymd d)) #
                map (\<lambda>(out_key, csv_key). (out_key, PStr (get_str r csv_key []))) value_cols))"

text \<open>
  \<^verbatim>\<open>_read_daily_csv\<close>: no file, no data; there is no \<^verbatim>\<open>try\<close>, so a file that cannot be
  read raises. The rows themselves are only copied.
\<close>

definition read_daily_csv ::
  "converter \<Rightarrow> row src_file option \<Rightarrow> (string \<times> string) list \<Rightarrow> py_error + supp_entry list" where
  "read_daily_csv c f value_cols =
     (case f of
        None \<Rightarrow> Inr []
      | Some Unreadable \<Rightarrow> Inl OSError
      | Some (Records rs) \<Rightarrow> Inr (List.map_filter (daily_entry c value_cols) rs))"

text \<open>The resting heart rate is rounded when it is a number and left as it is otherwise.\<close>

definition round_resting_hr :: "supp_entry \<Rightarrow> supp_entry" where
  "round_resting_hr entry =
     (case py_float (get_or entry ''resting_hr'' PNone) of
        Inl e \<Rightarrow> entry
      | Inr x \<Rightarrow> AList.update ''resting_hr'' (PNum (py_round 1 x)) entry)"

definition spo2_step :: "converter \<Rightarrow> row \<Rightarrow> supp_entry list \<Rightarrow> supp_entry list \<times> py_error option"
  where
  "spo2_step c r acc =
     (case daily_entry c [(''avg_spo2'', ''average_value''), (''min_spo2'', ''lower_bound''),
                          (''max_spo2'', ''upper_bound'')] r of
        None \<Rightarrow> (acc, None)
      | Some entry \<Rightarrow> (acc @ [entry], None))"

record supp_files =
  resting_hr_file :: "row src_file option"
  hrv_file :: "row src_file option"
  respiratory_rate_file :: "row src_file option"
  spo2_files :: "row src_files"
  sleep_score_file :: "row src_file option"
  readiness_file :: "row src_file option"

record supp_tables =
  rhr_data :: "supp_entry list"
  hrv_data :: "supp_entry list"
  rr_data :: "supp_entry list"
  spo2_data :: "supp_entry list"
  sleep_score_data :: "supp_entry list"
  readiness_data :: "supp_entry list"

text \<open>
  \<^verbatim>\<open>generate_supplementary_csvs\<close>, table by table in the order of the source. The loop
  over \<^verbatim>\<open>sleep_score.csv\<close> is written out in the source; it reads like
  \<^verbatim>\<open>_read_daily_csv\<close> with its own columns.
\<close>

definition generate_supplementary_csvs ::
  "converter \<Rightarrow> supp_files \<Rightarrow> py_error + supp_tables \<times> warnings" where
  "generate_supplementary_csvs c fs =
     (case read_daily_csv c (resting_hr_file fs) [(''resting_hr'', ''beats per minute'')] of
        Inl e \<Rightarrow> Inl e
      | Inr rhr \<Rightarrow>
     (case read_daily_csv c (hrv_file fs)
             [(''hrv_rmssd'', ''average heart rate variability milliseconds''),
              (''nrem_hr'', ''non rem heart rate beats per minute''),
              (''entropy'', ''entropy''),
              (''deep_sleep_rmssd'',
               ''deep sleep root mean square of successive differences milliseconds'')] of
        Inl e \<Rightarrow> Inl e
      | Inr hrv \<Rightarrow>
     (case read_daily_csv c (respiratory_rate_file fs)
             [(''respiratory_rate'', ''breaths per minute'')] of
        Inl e \<Rightarrow> Inl e
      | Inr rr \<Rightarrow>
     (case for_files (spo2_step c) (spo2_files fs) ([], []) of
        (spo2, ws) \<Rightarrow>
     (case read_daily_csv c (sleep_score_file fs)
             [(''overall_score'', ''overall_score''),
              (''composition_score'', ''composition_score''),
              (''revitalization_score'', ''revitalization_score''),
              (''duration_score'', ''duration_score''),
              (''deep_sleep_min'', ''deep_sleep_in_minutes''),
              (''resting_hr'', ''resting_heart_rate'')] of
        Inl e \<Rightarrow> Inl e
      | Inr scores \<Rightarrow>
     (case read_daily_csv c (readiness_file fs)
             [(''score'', ''score''), (''level'', ''type''),
              (''hrv_readiness'', ''heart rate variability readiness''),
              (''rhr_readiness'', ''resting heart rate readiness''),
              (''sleep_readiness'', ''sleep readiness'')] of
        Inl e \<Rightarrow> Inl e
      | Inr readiness \<Rightarrow>
          Inr (\<lparr>rhr_data = map round_resting_hr rhr, hrv_data = hrv, rr_data = rr,
                spo2_data = spo2, sleep_score_data = scores, readiness_data = readiness\<rparr>,
               ws)))))))"

subsection \<open>Run all\<close>

record fitbit_export =
  weight_json_files :: "weight_entry src_files"
  weight_csv_file :: "row src_file option"
  body_fat_files :: "row src_files"
  activity_csvs :: activity_files
  user_sleeps_files :: "row src_files"
  user_sleep_stages_files :: "row src_files"
  supplementary_csvs :: supp_files

record garmin_output =
  out_body :: "(string \<times> body_entry) list"
  out_body_entries :: nat
  out_activities :: "activity_line list"
  out_days :: nat
  out_sleep :: "sleep_line list"
  out_sleep_sessions :: nat
  out_supplementary :: supp_tables
  out_warnings :: warnings

text \<open>
  \<^verbatim>\<open>convert\<close>, once the input directories are found: body, activities, sleep,
  supplementary. An error that a stage does not catch ends the run: the result is the
  error, and the later stages write nothing.
\<close>

definition convert :: "converter \<Rightarrow> fitbit_export \<Rightarrow> py_error + garmin_output" where
  "convert c x =
     (case generate_body_csv c (weight_json_files x) (weight_csv_file x) (body_fat_files x) of
        Inl e \<Rightarrow> Inl e
      | Inr (body, w1) \<Rightarrow>
          (case generate_activities_csv c (activity_csvs x) of
             (lines, dates, w2) \<Rightarrow>
               (case generate_sleep_csv c (user_sleeps_files x) (user_sleep_stages_files x) of
                  Inl e \<Rightarrow> Inl e
                | Inr (sl, sleep_ls, w3) \<Rightarrow>
                    (case generate_supplementary_csvs c (supplementary_csvs x) of
                       Inl e \<Rightarrow> Inl e
                     | Inr (tables, w4) \<Rightarrow>
                         Inr \<lparr>out_body = body_lines body, out_body_entries = length body,
                              out_activities = lines, out_days = length dates,
                              out_sleep = sleep_ls, out_sleep_sessions = length sl,
                              out_supplementary = tables,
                              out_warnings = w1 @ w2 @ w3 @ w4\<rparr>))))"

section \<open>Example inputs\<close>

text \<open>The default window of the command line: all dates from 2000 to 2099.\<close>

definition ex_converter :: converter where
  "ex_converter = \<lparr>start_date = Date 2000 1 1, end_date = Date 2099 12 31\<rparr>"

definition ex_calories :: "row src_file" where
  "ex_calories = Records
     [[''timestamp'' \<mapsto> ''2025-01-01T00:00:00Z'', ''calories'' \<mapsto> ''1200.5''],
      [''timestamp'' \<mapsto> ''2025-01-01T00:01:00Z'', ''calories'' \<mapsto> ''999.5''],
      [''timestamp'' \<mapsto> ''2025-01-02T00:01:00Z'', ''calories'' \<mapsto> ''1200'']]"

definition ex_activity_files :: activity_files where
  "ex_activity_files =
     \<lparr>steps_files = [(''steps_1.csv'',
         Records [[''timestamp'' \<mapsto> ''2025-01-03T00:00:00Z'', ''steps'' \<mapsto> ''12'']])],
      calories_files = [(''calories_1.csv'', ex_calories)],
      distance_files = [(''distance_1.csv'',
         Records [[''timestamp'' \<mapsto> ''2025-01-01T00:00:00Z'', ''distance'' \<mapsto> ''5000'']])],
      floors_files = [(''floors_1.csv'',
         Records [[''timestamp'' \<mapsto> ''2025-01-04T00:00:00Z'', ''floors'' \<mapsto> ''3'']])],
      active_minutes_files = [(''active_minutes_1.csv'',
         Records [[''timestamp'' \<mapsto> ''2025-01-04T00:00:00Z'', ''light'' \<mapsto> ''10'',
                   ''moderate'' \<mapsto> ''5'', ''very'' \<mapsto> ''1'']])],
      activity_level_files = [(''activity_level_1.csv'',
         Records [[''timestamp'' \<mapsto> ''2025-01-04T00:00:00Z'', ''level'' \<mapsto> ''SEDENTARY'']])]\<rparr>"

definition ex_weight_entry :: weight_entry where
  "ex_weight_entry = \<lparr>date_member = Some ''01/15/25'', weight_member = Some (PNum 150),
     bmi_member = Some (PNum 22.5), fat_member = Some (PNum 18.25)\<rparr>"

definition ex_weight_row :: row where
  "ex_weight_row = [''timestamp'' \<mapsto> ''2025-01-16T07:30:00Z'', ''weight grams'' \<mapsto> ''68000'']"

definition ex_weight_json :: "weight_entry src_files" where
  "ex_weight_json = [(''weight-2025-01-15.json'', Records [ex_weight_entry])]"

definition ex_no_activity :: activity_files where
  "ex_no_activity = \<lparr>steps_files = [], calories_files = [], distance_files = [],
     floors_files = [], active_minutes_files = [], activity_level_files = []\<rparr>"

definition ex_no_supp :: supp_files where
  "ex_no_supp = \<lparr>resting_hr_file = None, hrv_file = None, respiratory_rate_file = None,
     spo2_files = [], sleep_score_file = None, readiness_file = None\<rparr>"

definition ex_bad_row :: row where
  "ex_bad_row = [''timestamp'' \<mapsto> ''2025-01-16T07:30:00Z'', ''weight grams'' \<mapsto> ''abc'',
                 ''steps'' \<mapsto> ''abc'']"

definition ex_good_steps_row :: row where
  "ex_good_steps_row = [''timestamp'' \<mapsto> ''2025-01-17T07:30:00Z'', ''steps'' \<mapsto> ''40'']"

definition ex_export_bad_weight_csv :: fitbit_export where
  "ex_export_bad_weight_csv =
     \<lparr>weight_json_files = [], weight_csv_file = Some (Records [ex_bad_row]),
      body_fat_files = [], activity_csvs = ex_activity_files, user_sleeps_files = [],
      user_sleep_stages_files = [], supplementary_csvs = ex_no_supp\<rparr>"

definition ex_export_bad_steps_csv :: fitbit_export where
  "ex_export_bad_steps_csv =
     \<lparr>weight_json_files = [], weight_csv_file = None,
      body_fat_files = [],
      activity_csvs = ex_no_activity\<lparr>steps_files :=
         [(''steps_1.csv'', Records [ex_bad_row]), (''steps_2.csv'', Records [ex_good_steps_row])]\<rparr>,
      user_sleeps_files = [],
      user_sleep_stages_files = [], supplementary_csvs = ex_no_supp\<rparr>"

section \<open>Textual encodings of dates and instants\<close>

text \<open>
  The encodings that the specification names, written out so that the parsers of the
  source can be run on every text of the form: the ISO date is \<^const>\<open>strftime_ymd\<close>,
  \<open>timestamp_text\<close> is the date, the designator \<^verbatim>\<open>T\<close>, the clock and a suffix,
  \<open>us_date_text\<close> is \<^verbatim>\<open>MM/DD/YY\<close>, \<open>sleep_text\<close> separates date and clock by a space,
  and an offset is a sign and \<^verbatim>\<open>HHMM\<close> (\<open>offset4\<close>) or \<^verbatim>\<open>HH:MM\<close> (\<open>offset_colon\<close>).
\<close>

definition clock_text :: "nat \<Rightarrow> nat \<Rightarrow> nat \<Rightarrow> string" where
  "clock_text h mi s = pad2 h @ '':'' @ pad2 mi @ '':'' @ pad2 s"

definition timestamp_text :: "date \<Rightarrow> nat \<Rightarrow> nat \<Rightarrow> nat \<Rightarrow> string \<Rightarrow> string" where
  "timestamp_text d h mi s sfx = strftime_ymd d @ ''T'' @ clock_text h mi s @ sfx"

definition us_date_text :: "date \<Rightarrow> string" where
  "us_date_text d = pad2 (month d) @ ''/'' @ pad2 (day d) @ ''/'' @ pad2 (year d mod 100)"

definition sleep_text :: "date \<Rightarrow> nat \<Rightarrow> nat \<Rightarrow> nat \<Rightarrow> string \<Rightarrow> string" where
  "sleep_text d h mi s off = strftime_ymd d @ '' '' @ clock_text h mi s @ off"

definition offset4 :: "char \<Rightarrow> nat \<Rightarrow> nat \<Rightarrow> string" where
  "offset4 sign oh om = sign # pad2 oh @ pad2 om"

definition offset_colon :: "char \<Rightarrow> nat \<Rightarrow> nat \<Rightarrow> string" where
  "offset_colon sign oh om = sign # pad2 oh @ '':'' @ pad2 om"








section \<open>Verified properties\<close>

subsection \<open>Evaluation of the model on concrete inputs\<close>

lemmas py_evals = strip_def is_space_def replace_Z_def fromisoformat_def num_field_def digits_val_def
  digit_val_def is_digit_def all_digits_def mk_date_def valid_date_def days_in_month_def is_leap_def
  parse_hh_mm_ss_ff_def parse_isoformat_time_def is_sign_def parse_date_def in_window_def date_le_def
  strftime_ymd_def pad2_def pad4_def digit_char_def float_of_str_def unsigned_float_def int_of_str_def
  strptime_Ymd_def strptime_mdy_def year_of_yy_def window_date_def trunc_def py_round0_def py_round_def
  int_float_def get_str_def get_num_def keys_def get_or_def touch_def read_file_def Let_def

lemma ex_activity_acc:
  "activity_accumulate ex_converter ex_activity_files =
     (\<lparr>daily_steps = [(''2025-01-03'', 12)],
       daily_calories = [(''2025-01-01'', 2200), (''2025-01-02'', 1200)],
       daily_distance = [(''2025-01-01'', 5000)],
       daily_floors = [(''2025-01-04'', 3)],
       daily_light = [(''2025-01-04'', 10)], daily_fairly = [(''2025-01-04'', 5)],
       daily_very = [(''2025-01-04'', 1)], daily_sedentary = [(''2025-01-04'', 1)]\<rparr>, [])"
  by (simp add: activity_accumulate_def aggregate_csv_def aggregate_step_def cast_int_def
      active_step_def sedentary_step_def
      ex_activity_files_def ex_calories_def ex_converter_def py_evals)

lemma ex_sort_dates:
  "sort [''2025-01-03'', ''2025-01-01'', ''2025-01-02''] =
     [''2025-01-01'', ''2025-01-02'', ''2025-01-03'']"
  by code_simp

lemma ex_all_dates:
  "all_dates (fst (activity_accumulate ex_converter ex_activity_files)) =
     [''2025-01-01'', ''2025-01-02'', ''2025-01-03'']"
  by (simp add: ex_activity_acc all_dates_def keys_def ex_sort_dates)

lemma ex_activity_lines:
  "map (\<lambda>l. (al_date l, al_calories l, al_activity_calories l))
     (fst (generate_activities_csv ex_converter ex_activity_files)) =
   [(''2025-01-01'', 2200, 700), (''2025-01-02'', 1200, 0), (''2025-01-03'', 0, 0)]"
  using ex_all_dates
  by (simp add: generate_activities_csv_def ex_activity_acc activity_line_of_def get_or_def
      py_round0_def Let_def)

subsection \<open>Activities\<close>

text \<open>
  Claim C4. In every line of the activities output, the activity-calories field is
  \<open>max(0, caloriesBurned - 1500)\<close> when \<open>caloriesBurned > 0\<close> and \<open>0\<close> otherwise.
  The witness runs the converter on calories that add up to 2200 on one day and to 1200
  on the next, and on a third day with steps only (calories 0): the derived values are
  700, 0 and 0.
\<close>

theorem activity_calories_derived:
  "\<forall>l \<in> set (fst (generate_activities_csv c fs)).
     al_activity_calories l =
       (if al_calories l > 0 then max 0 (al_calories l - 1500) else 0)"
  by (auto simp: generate_activities_csv_def activity_line_of_def Let_def split: prod.splits)

theorem activity_calories_derived_witness:
  "map (\<lambda>l. (al_calories l, al_activity_calories l))
     (fst (generate_activities_csv ex_converter ex_activity_files)) =
     [(2200, 700), (1200, 0), (0, 0)] \<and>
   list_all (\<lambda>l. al_activity_calories l =
       (if al_calories l > 0 then max 0 (al_calories l - 1500) else 0))
     (fst (generate_activities_csv ex_converter ex_activity_files))"
proof -
  have "map (\<lambda>l. (al_calories l, al_activity_calories l))
     (fst (generate_activities_csv ex_converter ex_activity_files)) =
     map (\<lambda>(d, c, a). (c, a)) (map (\<lambda>l. (al_date l, al_calories l, al_activity_calories l))
     (fst (generate_activities_csv ex_converter ex_activity_files)))"
    by (simp add: comp_def)
  then have "map (\<lambda>l. (al_calories l, al_activity_calories l))
     (fst (generate_activities_csv ex_converter ex_activity_files)) =
     [(2200, 700), (1200, 0), (0, 0)]"
    by (simp add: ex_activity_lines)
  moreover have "list_all (\<lambda>l. al_activity_calories l =
       (if al_calories l > 0 then max 0 (al_calories l - 1500) else 0))
     (fst (generate_activities_csv ex_converter ex_activity_files))"
    using activity_calories_derived [of ex_converter ex_activity_files]
    by (simp add: list_all_iff)
  ultimately show ?thesis by simp
qed




subsection \<open>Rounding\<close>


lemma py_round_grid: "py_round n x = of_int (py_round0 (x * 10 ^ n)) / 10 ^ n"
  by (simp add: py_round_def)


lemma ex_body_json:
  "generate_body_csv ex_converter [(''weight-2025-01-15.json'', Records [ex_weight_entry])] csv [] =
     Inr ([(''2025-01-15'', \<lparr>weight = 68, bmi = 22.5, fat = 18.2\<rparr>)], [])"
  by (simp add: generate_body_csv_def body_source1_def body_fallback_def body_json_step_def
      member_num_def member_str_def ex_weight_entry_def ex_converter_def py_evals)

lemma ex_body_csv:
  "generate_body_csv ex_converter [] (Some (Records [ex_weight_row])) [] =
     Inr ([(''2025-01-16'', \<lparr>weight = 68, bmi = 0, fat = 0\<rparr>)], [])"
  by (simp add: generate_body_csv_def body_source1_def body_fallback_def body_csv_step_def
      ex_weight_row_def ex_converter_def py_evals)


subsection \<open>Invariants of the loops\<close>

lemma for_rows_invariant:
  assumes "P acc"
    and "\<And>r a a' e. r \<in> set rs \<Longrightarrow> P a \<Longrightarrow> step r a = (a', e) \<Longrightarrow> P a'"
  shows "P (fst (for_rows step rs acc))"
  using assms
proof (induction rs arbitrary: acc)
  case Nil
  then show ?case by simp
next
  case (Cons r rs)
  obtain a' e where st: "step r acc = (a', e)" by (cases "step r acc")
  have pa: "P a'" using Cons.prems(2)[of r acc a' e] Cons.prems(1) st by simp
  have rest: "\<And>r a a' e. r \<in> set rs \<Longrightarrow> P a \<Longrightarrow> step r a = (a', e) \<Longrightarrow> P a'"
    using Cons.prems(2) by (meson list.set_intros(2))
  show ?case
  proof (cases e)
    case None
    then show ?thesis using st Cons.IH[OF pa rest] by simp
  next
    case (Some x)
    then show ?thesis using st pa by simp
  qed
qed

lemma read_file_invariant:
  assumes "P acc"
    and "\<And>rs r a a' e. f = Records rs \<Longrightarrow> r \<in> set rs \<Longrightarrow> P a \<Longrightarrow> step r a = (a', e) \<Longrightarrow> P a'"
  shows "P (fst (read_file step f acc))"
proof (cases f)
  case Unreadable
  then show ?thesis using assms(1) by (simp add: read_file_def)
next
  case (Records rs)
  then show ?thesis
    using for_rows_invariant[of P acc rs step] assms by (simp add: read_file_def)
qed

lemma for_files_invariant:
  assumes "P acc"
    and "\<And>p rs r a a' e. (p, Records rs) \<in> set fs \<Longrightarrow> r \<in> set rs \<Longrightarrow> P a \<Longrightarrow>
           step r a = (a', e) \<Longrightarrow> P a'"
  shows "P (fst (for_files step fs (acc, ws)))"
  using assms
proof (induction fs arbitrary: acc ws)
  case Nil
  then show ?case by simp
next
  case (Cons pf fs)
  obtain p f where pf: "pf = (p, f)" by (cases pf)
  obtain a' e where rf: "read_file step f acc = (a', e)" by (cases "read_file step f acc")
  have "P (fst (read_file step f acc))"
  proof (rule read_file_invariant[of P acc f step])
    show "P acc" by (rule Cons.prems(1))
  next
    fix rs r a a' e
    assume "f = Records rs" "r \<in> set rs" "P a" "step r a = (a', e)"
    then show "P a'" using Cons.prems(2)[of p rs r a a' e] pf by simp
  qed
  then have pa: "P a'" using rf by simp
  have step': "\<And>p rs r a a' e. (p, Records rs) \<in> set fs \<Longrightarrow> r \<in> set rs \<Longrightarrow> P a \<Longrightarrow>
           step r a = (a', e) \<Longrightarrow> P a'"
    using Cons.prems(2) by (meson list.set_intros(2))
  show ?case
    using Cons.IH[OF pa step'] pf rf by (cases e) simp_all
qed

subsection \<open>Body data\<close>

lemma body_csv_step_cases:
  assumes "body_csv_step c r a = (a', e)"
  shows "(a' = a \<and> (e = None \<longrightarrow> window_date c (get_str r ''timestamp'' []) = None)) \<or>
         (\<exists>d g. window_date c (get_str r ''timestamp'' []) = Some d \<and>
                py_float (get_num r ''weight grams'') = Inr g \<and> e = None \<and>
                a' = AList.update (strftime_ymd d)
                       \<lparr>weight = py_round 1 (g / 1000), bmi = 0, fat = 0\<rparr> a)"
  using assms by (auto simp: body_csv_step_def split: option.splits sum.splits)

lemma fallback_entries:
  "\<forall>ds e. map_of (fst (for_rows (body_csv_step c) rs [])) ds = Some e \<longrightarrow>
       from_fallback c rs ds e \<and> fat e = 0"
proof (rule for_rows_invariant)
  show "\<forall>ds e. map_of ([] :: body_data) ds = Some e \<longrightarrow> from_fallback c rs ds e \<and> fat e = 0"
    by simp
next
  fix r a a' e
  assume r: "r \<in> set rs"
    and inv: "\<forall>ds e. map_of a ds = Some e \<longrightarrow> from_fallback c rs ds e \<and> fat e = 0"
    and st: "body_csv_step c r a = (a', e)"
  from body_csv_step_cases[OF st]
  show "\<forall>ds e. map_of a' ds = Some e \<longrightarrow> from_fallback c rs ds e \<and> fat e = 0"
  proof
    assume "a' = a \<and> (e = None \<longrightarrow> window_date c (get_str r ''timestamp'' []) = None)"
    then show ?thesis using inv by simp
  next
    assume "\<exists>d g. window_date c (get_str r ''timestamp'' []) = Some d \<and>
                py_float (get_num r ''weight grams'') = Inr g \<and> e = None \<and>
                a' = AList.update (strftime_ymd d)
                       \<lparr>weight = py_round 1 (g / 1000), bmi = 0, fat = 0\<rparr> a"
    then obtain d g where d: "window_date c (get_str r ''timestamp'' []) = Some d"
      and g: "py_float (get_num r ''weight grams'') = Inr g"
      and a': "a' = AList.update (strftime_ymd d)
                       \<lparr>weight = py_round 1 (g / 1000), bmi = 0, fat = 0\<rparr> a"
      by blast
    have new: "from_fallback c rs (strftime_ymd d)
                 \<lparr>weight = py_round 1 (g / 1000), bmi = 0, fat = 0\<rparr>"
      unfolding from_fallback_def using r d g by auto
    show ?thesis
      using inv new by (auto simp: a' update_conv')
  qed
qed

lemma fallback_keys:
  "for_rows (body_csv_step c) rs acc = (b2, None) \<Longrightarrow>
     dom (map_of acc) \<subseteq> dom (map_of b2) \<and>
     (\<forall>r \<in> set rs. \<forall>d. window_date c (get_str r ''timestamp'' []) = Some d \<longrightarrow>
         strftime_ymd d \<in> dom (map_of b2))"
proof (induction rs arbitrary: acc)
  case Nil
  then show ?case by simp
next
  case (Cons r rs)
  obtain a' e where st: "body_csv_step c r acc = (a', e)" by (cases "body_csv_step c r acc")
  have e: "e = None" using Cons.prems st by (cases e) auto
  then have rest: "for_rows (body_csv_step c) rs a' = (b2, None)" using Cons.prems st by simp
  note ih = Cons.IH[OF rest]
  from body_csv_step_cases[OF st] show ?case
  proof
    assume "a' = acc \<and> (e = None \<longrightarrow> window_date c (get_str r ''timestamp'' []) = None)"
    then show ?thesis using ih e by auto
  next
    assume "\<exists>d g. window_date c (get_str r ''timestamp'' []) = Some d \<and>
                py_float (get_num r ''weight grams'') = Inr g \<and> e = None \<and>
                a' = AList.update (strftime_ymd d)
                       \<lparr>weight = py_round 1 (g / 1000), bmi = 0, fat = 0\<rparr> acc"
    then obtain d g where d: "window_date c (get_str r ''timestamp'' []) = Some d"
      and a': "a' = AList.update (strftime_ymd d)
                       \<lparr>weight = py_round 1 (g / 1000), bmi = 0, fat = 0\<rparr> acc"
      by blast
    have "dom (map_of a') = insert (strftime_ymd d) (dom (map_of acc))"
      by (simp add: a' update_conv')
    then show ?thesis using ih d by auto
  qed
qed

lemma body_fat_step_keeps:
  assumes "body_fat_step c r a = (a', e)" and "map_of a ds = Some e1"
  shows "\<exists>e2. map_of a' ds = Some e2 \<and> weight e2 = weight e1 \<and> bmi e2 = bmi e1"
  using assms
  by (cases "ds = strftime_ymd (the (window_date c (get_str r ''timestamp'' [])))")
     (auto simp: body_fat_step_def Let_def update_conv' split: option.splits sum.splits)

lemma enrichment_keeps_weight_bmi:
  "\<forall>ds e0. map_of b2 ds = Some e0 \<longrightarrow>
      (\<exists>e. map_of (fst (for_files (body_fat_step c) bf (b2, ws))) ds = Some e \<and>
           weight e = weight e0 \<and> bmi e = bmi e0)"
proof (rule for_files_invariant)
  show "\<forall>ds e0. map_of b2 ds = Some e0 \<longrightarrow>
      (\<exists>e. map_of b2 ds = Some e \<and> weight e = weight e0 \<and> bmi e = bmi e0)"
    by simp
next
  fix p rs r a a' e
  assume inv: "\<forall>ds e0. map_of b2 ds = Some e0 \<longrightarrow>
      (\<exists>e. map_of a ds = Some e \<and> weight e = weight e0 \<and> bmi e = bmi e0)"
    and st: "body_fat_step c r a = (a', e)"
  show "\<forall>ds e0. map_of b2 ds = Some e0 \<longrightarrow>
      (\<exists>e. map_of a' ds = Some e \<and> weight e = weight e0 \<and> bmi e = bmi e0)"
  proof (intro allI impI)
    fix ds e0
    assume "map_of b2 ds = Some e0"
    then obtain e1 where e1: "map_of a ds = Some e1" "weight e1 = weight e0" "bmi e1 = bmi e0"
      using inv by blast
    from body_fat_step_keeps[OF st e1(1)] e1
    show "\<exists>e. map_of a' ds = Some e \<and> weight e = weight e0 \<and> bmi e = bmi e0"
      by auto
  qed
qed

lemma ex_source1: "body_source1 ex_converter ex_weight_json =
   ([(''2025-01-15'', \<lparr>weight = 68, bmi = 22.5, fat = 18.2\<rparr>)], [])"
  by (simp add: body_source1_def body_json_step_def ex_weight_json_def
      member_num_def member_str_def ex_weight_entry_def ex_converter_def py_evals)


text \<open>
  Claim C1. When the JSON files have stored at least one in-window entry, the body data
  do not depend on \<^verbatim>\<open>weight.csv\<close> at all: they are what they are without the file,
  whatever the file holds. When the JSON files stored nothing and \<^verbatim>\<open>weight.csv\<close> is read
  to its end, every in-window row has an entry under its date, and that entry has the
  weight of an in-window row with that date in kilograms (grams / 1000, one decimal) and
  BMI 0; the fat is 0 as well, until a \<^verbatim>\<open>body_fat_*.csv\<close> file overwrites it (with no such
  file, every entry is of this form).
\<close>

theorem body_source_precedence:
  "(fst (body_source1 c js) \<noteq> [] \<longrightarrow>
      generate_body_csv c js csv bf = generate_body_csv c js None bf) \<and>
   (fst (body_source1 c js) = [] \<longrightarrow>
      generate_body_csv c js (Some (Records rs)) bf = Inr (body, ws) \<longrightarrow>
      (\<forall>r \<in> set rs. \<forall>d. window_date c (get_str r ''timestamp'' []) = Some d \<longrightarrow>
         (\<exists>e. map_of body (strftime_ymd d) = Some e \<and> from_fallback c rs (strftime_ymd d) e)) \<and>
      (bf = [] \<longrightarrow>
         (\<forall>ds e. map_of body ds = Some e \<longrightarrow> from_fallback c rs ds e \<and> fat e = 0)))"
proof (intro conjI impI)
  assume "fst (body_source1 c js) \<noteq> []"
  then show "generate_body_csv c js csv bf = generate_body_csv c js None bf"
    by (cases "body_source1 c js") (simp add: generate_body_csv_def body_fallback_def)
next
  assume empty: "fst (body_source1 c js) = []"
    and gen: "generate_body_csv c js (Some (Records rs)) bf = Inr (body, ws)"
  obtain w1 where s1: "body_source1 c js = ([], w1)"
    using empty by (cases "body_source1 c js") simp
  obtain b2 err where fr: "for_rows (body_csv_step c) rs [] = (b2, err)"
    by (cases "for_rows (body_csv_step c) rs []")
  have err: "err = None"
    using gen s1 fr by (cases err) (simp_all add: generate_body_csv_def body_fallback_def read_file_def)
  have body: "body = fst (for_files (body_fat_step c) bf (b2, w1))"
    using gen s1 fr err by (simp add: generate_body_csv_def body_fallback_def read_file_def)
  have entries: "\<forall>ds e. map_of b2 ds = Some e \<longrightarrow> from_fallback c rs ds e \<and> fat e = 0"
    using fallback_entries[of c rs] fr by simp
  have keys: "\<forall>r \<in> set rs. \<forall>d. window_date c (get_str r ''timestamp'' []) = Some d \<longrightarrow>
         strftime_ymd d \<in> dom (map_of b2)"
    using fallback_keys[of c rs "[]" b2] fr err by simp
  show "\<forall>r \<in> set rs. \<forall>d. window_date c (get_str r ''timestamp'' []) = Some d \<longrightarrow>
         (\<exists>e. map_of body (strftime_ymd d) = Some e \<and> from_fallback c rs (strftime_ymd d) e)"
  proof (intro ballI allI impI)
    fix r d
    assume "r \<in> set rs" "window_date c (get_str r ''timestamp'' []) = Some d"
    then obtain e0 where e0: "map_of b2 (strftime_ymd d) = Some e0"
      using keys by blast
    then have ff: "from_fallback c rs (strftime_ymd d) e0" using entries by blast
    obtain e where e: "map_of body (strftime_ymd d) = Some e" "weight e = weight e0"
      "bmi e = bmi e0"
      using enrichment_keeps_weight_bmi[of b2 c bf w1] e0 body by blast
    have "from_fallback c rs (strftime_ymd d) e"
      using ff e by (simp add: from_fallback_def)
    then show "\<exists>e. map_of body (strftime_ymd d) = Some e \<and> from_fallback c rs (strftime_ymd d) e"
      using e by blast
  qed
  show "\<forall>ds e. map_of body ds = Some e \<longrightarrow> from_fallback c rs ds e \<and> fat e = 0" if "bf = []"
    using that body entries by simp
qed

theorem body_source_precedence_witness:
  "fst (body_source1 ex_converter ex_weight_json) \<noteq> [] \<and>
   generate_body_csv ex_converter ex_weight_json (Some (Records [ex_weight_row])) [] =
     Inr ([(''2025-01-15'', \<lparr>weight = 68, bmi = 22.5, fat = 18.2\<rparr>)], []) \<and>
   fst (body_source1 ex_converter []) = [] \<and>
   generate_body_csv ex_converter [] (Some (Records [ex_weight_row])) [] =
     Inr ([(''2025-01-16'', \<lparr>weight = 68, bmi = 0, fat = 0\<rparr>)], []) \<and>
   from_fallback ex_converter [ex_weight_row] ''2025-01-16'' \<lparr>weight = 68, bmi = 0, fat = 0\<rparr>"
proof -
  have 1: "fst (body_source1 ex_converter ex_weight_json) \<noteq> []"
    by (simp add: ex_source1)
  have 2: "generate_body_csv ex_converter ex_weight_json (Some (Records [ex_weight_row])) [] =
     Inr ([(''2025-01-15'', \<lparr>weight = 68, bmi = 22.5, fat = 18.2\<rparr>)], [])"
    using body_source_precedence[of ex_converter ex_weight_json "Some (Records [ex_weight_row])" "[]"] 1
      ex_body_json[of None]
    by (simp add: ex_weight_json_def)
  have 3: "fst (body_source1 ex_converter []) = []"
    by (simp add: body_source1_def)
  have 4: "generate_body_csv ex_converter [] (Some (Records [ex_weight_row])) [] =
     Inr ([(''2025-01-16'', \<lparr>weight = 68, bmi = 0, fat = 0\<rparr>)], [])"
    by (rule ex_body_csv)
  have 5: "from_fallback ex_converter [ex_weight_row] ''2025-01-16'' \<lparr>weight = 68, bmi = 0, fat = 0\<rparr>"
    using body_source_precedence[of ex_converter "[]" _ "[]" "[ex_weight_row]"
        "[(''2025-01-16'', \<lparr>weight = 68, bmi = 0, fat = 0\<rparr>)]" "[]"] 3 4
    by simp
  show ?thesis using 1 2 3 4 5 by simp
qed

subsection \<open>Errors in numeric cells\<close>

lemma ex_bad_steps_acc:
  "activity_accumulate ex_converter (activity_csvs ex_export_bad_steps_csv) =
     (\<lparr>daily_steps = [(''2025-01-16'', 0), (''2025-01-17'', 40)],
       daily_calories = [], daily_distance = [], daily_floors = [], daily_light = [],
       daily_fairly = [], daily_very = [], daily_sedentary = []\<rparr>, [(''steps_1.csv'', ValueError)])"
  by (simp add: activity_accumulate_def aggregate_csv_def aggregate_step_def cast_int_def
      ex_export_bad_steps_csv_def ex_no_activity_def ex_bad_row_def ex_good_steps_row_def
      ex_converter_def py_evals)

lemma ex_sort_two: "sort [''2025-01-16'', ''2025-01-17''] = [''2025-01-16'', ''2025-01-17'']"
  by code_simp

text \<open>
  Claim C3 asks that a malformed numeric cell only ends the reading of its file, with a
  warning, on every aggregation path. The fallback \<^verbatim>\<open>weight.csv\<close> is read outside any
  \<^verbatim>\<open>try\<close>: with no JSON weights and the cell \<^verbatim>\<open>abc\<close> under \<^verbatim>\<open>weight grams\<close> in an
  in-window row, the \<^verbatim>\<open>ValueError\<close> leaves \<^verbatim>\<open>convert\<close> and nothing is written. The same
  cell in a steps file is caught: the file is left with a warning, the next file is read
  and the run ends with its output.
\<close>

theorem fallback_weight_error_aborts_run:
  "convert ex_converter ex_export_bad_weight_csv = Inl ValueError \<and>
   (case convert ex_converter ex_export_bad_steps_csv of
      Inl e \<Rightarrow> False
    | Inr out \<Rightarrow> out_warnings out = [(''steps_1.csv'', ValueError)] \<and>
                 map (\<lambda>l. (al_date l, al_steps l)) (out_activities out) =
                   [(''2025-01-16'', 0), (''2025-01-17'', 40)])"
proof -
  have 1: "convert ex_converter ex_export_bad_weight_csv = Inl ValueError"
    by (simp add: convert_def generate_body_csv_def body_source1_def body_fallback_def
        body_csv_step_def ex_export_bad_weight_csv_def ex_bad_row_def ex_converter_def py_evals)
  have b: "generate_body_csv ex_converter [] None [] = Inr ([], [])"
    by (simp add: generate_body_csv_def body_source1_def body_fallback_def)
  have s: "generate_sleep_csv ex_converter [] [] = Inr ([], [], [])"
    by (simp add: generate_sleep_csv_def sleep_sessions_def by_start_def)
  have u: "generate_supplementary_csvs ex_converter ex_no_supp =
     Inr (\<lparr>rhr_data = [], hrv_data = [], rr_data = [], spo2_data = [],
           sleep_score_data = [], readiness_data = []\<rparr>, [])"
    by (simp add: generate_supplementary_csvs_def read_daily_csv_def ex_no_supp_def)
  have a: "generate_activities_csv ex_converter (activity_csvs ex_export_bad_steps_csv) =
     (map (activity_line_of (fst (activity_accumulate ex_converter (activity_csvs ex_export_bad_steps_csv))))
        [''2025-01-16'', ''2025-01-17''], [''2025-01-16'', ''2025-01-17''],
      [(''steps_1.csv'', ValueError)])"
    by (simp add: generate_activities_csv_def ex_bad_steps_acc all_dates_def keys_def ex_sort_two)
  have 2: "(case convert ex_converter ex_export_bad_steps_csv of
      Inl e \<Rightarrow> False
    | Inr out \<Rightarrow> out_warnings out = [(''steps_1.csv'', ValueError)] \<and>
                 map (\<lambda>l. (al_date l, al_steps l)) (out_activities out) =
                   [(''2025-01-16'', 0), (''2025-01-17'', 40)])"
    unfolding convert_def a
    by (simp add: ex_export_bad_steps_csv_def b s u  ex_bad_steps_acc[unfolded ex_export_bad_steps_csv_def, simplified]
        activity_line_of_def get_or_def Let_def trunc_def)
  show ?thesis using 1 2 by simp
qed

subsection \<open>Unit conversions\<close>





subsection \<open>Digits and fixed-width fields\<close>

lemma lt10_cases: "d < 10 \<Longrightarrow> (d::nat) \<in> {0, 1, 2, 3, 4, 5, 6, 7, 8, 9}"
  by auto

lemma digit_char_digit [simp]: "d < 10 \<Longrightarrow> is_digit (digit_char d)"
  by (drule lt10_cases) (auto simp: is_digit_def digit_char_def)

lemma digit_val_char [simp]: "d < 10 \<Longrightarrow> digit_val (digit_char d) = d"
  by (drule lt10_cases) (auto simp: digit_val_def digit_char_def)

lemma digit_not_special:
  "is_digit c \<Longrightarrow> \<not> is_space c \<and> \<not> is_sign c \<and>
     c \<notin> {CHR '':'', CHR ''-'', CHR ''+'', CHR ''T'', CHR ''Z'', CHR '' '', CHR ''/'', CHR ''.''}"
  by (auto simp: is_digit_def is_space_def is_sign_def)

lemma mod10_lt [simp]: "(n::nat) mod 10 < 10"
  by simp

lemma num_field_pad2 [simp]: "n < 100 \<Longrightarrow> num_field 2 (pad2 n) = Some n"
  by (simp add: num_field_def pad2_def digits_val_def)

lemma pad4_value:
  assumes "n < 10000"
  shows "10 * (10 * (10 * (n div 1000 mod 10) + n div 100 mod 10) + n div 10 mod 10) + n mod 10 = (n::nat)"
proof -
  define q1 where "q1 = n div 10"
  define q2 where "q2 = q1 div 10"
  define q3 where "q3 = q2 div 10"
  have a: "n div 100 = q2" "n div 1000 = q3"
    by (simp_all add: q1_def q2_def q3_def div_mult2_eq[symmetric])
  have "q3 < 10" using assms unfolding a(2)[symmetric] by simp
  then have b: "q3 mod 10 = q3" by simp
  have n: "10 * q1 + n mod 10 = n" unfolding q1_def by simp
  have q1: "10 * q2 + q1 mod 10 = q1" unfolding q2_def by simp
  have q2: "10 * q3 + q2 mod 10 = q2" unfolding q3_def by simp
  have "10 * (10 * (10 * q3 + q2 mod 10) + q1 mod 10) + n mod 10 = n"
    by (simp only: q2 q1 n)
  then show ?thesis
    unfolding a b q1_def[symmetric] .
qed

lemma num_field_pad4 [simp]: "n < 10000 \<Longrightarrow> num_field 4 (pad4 n) = Some n"
  using pad4_value[of n] by (simp add: num_field_def pad4_def digits_val_def)

subsection \<open>The parsers on texts of known shape\<close>

lemma dropWhile_hd_id: "s \<noteq> [] \<Longrightarrow> \<not> P (hd s) \<Longrightarrow> dropWhile P s = s"
  by (cases s) auto

lemma strip_id: "s \<noteq> [] \<Longrightarrow> \<not> is_space (hd s) \<Longrightarrow> \<not> is_space (last s) \<Longrightarrow> strip s = s"
proof -
  assume a: "s \<noteq> []" "\<not> is_space (hd s)" "\<not> is_space (last s)"
  have 1: "dropWhile is_space s = s" using a by (simp add: dropWhile_hd_id)
  have "rev s \<noteq> []" "\<not> is_space (hd (rev s))" using a by (simp_all add: hd_rev)
  then have 2: "dropWhile is_space (rev s) = rev s" by (rule dropWhile_hd_id)
  show ?thesis by (simp add: strip_def 1 2)
qed

lemma digit_neq [simp]:
  "is_digit c \<Longrightarrow> c \<noteq> CHR '':''" "is_digit c \<Longrightarrow> c \<noteq> CHR ''-''"
  "is_digit c \<Longrightarrow> c \<noteq> CHR ''+''" "is_digit c \<Longrightarrow> c \<noteq> CHR ''T''"
  "is_digit c \<Longrightarrow> c \<noteq> CHR ''Z''" "is_digit c \<Longrightarrow> c \<noteq> CHR '' ''"
  "is_digit c \<Longrightarrow> c \<noteq> CHR ''/''" "is_digit c \<Longrightarrow> c \<noteq> CHR ''.''"
  "is_digit c \<Longrightarrow> \<not> is_space c" "is_digit c \<Longrightarrow> \<not> is_sign c"
  by (auto simp: is_digit_def is_space_def is_sign_def)

lemma digit_neq' [simp]:
  "is_digit c \<Longrightarrow> CHR '':'' \<noteq> c" "is_digit c \<Longrightarrow> CHR ''-'' \<noteq> c"
  "is_digit c \<Longrightarrow> CHR ''+'' \<noteq> c" "is_digit c \<Longrightarrow> CHR ''T'' \<noteq> c"
  "is_digit c \<Longrightarrow> CHR ''Z'' \<noteq> c" "is_digit c \<Longrightarrow> CHR '' '' \<noteq> c"
  "is_digit c \<Longrightarrow> CHR ''/'' \<noteq> c" "is_digit c \<Longrightarrow> CHR ''.'' \<noteq> c"
  by (auto simp: is_digit_def)

lemma is_sign_simps [simp]: "is_sign (CHR ''+'')" "is_sign (CHR ''-'')" "\<not> is_sign (CHR '':'')"
  "\<not> is_sign (CHR ''.'')"
  by (simp_all add: is_sign_def)

lemma is_space_simps [simp]: "\<not> is_space (CHR ''Z'')" "\<not> is_space (CHR ''0'')"
  by (simp_all add: is_space_def)

lemma num_field2 [simp]: "is_digit a \<Longrightarrow> is_digit b \<Longrightarrow> num_field 2 [a, b] = Some (10 * digit_val a + digit_val b)"
  by (simp add: num_field_def digits_val_def)

text \<open>The time part HH:MM:SS with an optional zero offset.\<close>

lemma hhmmss: 
  assumes "is_digit h1" "is_digit h2" "is_digit m1" "is_digit m2" "is_digit s1" "is_digit s2"
  shows "parse_hh_mm_ss_ff [h1, h2, CHR '':'', m1, m2, CHR '':'', s1, s2] =
    Some (10 * digit_val h1 + digit_val h2, 10 * digit_val m1 + digit_val m2,
          10 * digit_val s1 + digit_val s2, 0)"
  using assms by (simp add: parse_hh_mm_ss_ff_def)

lemma hhmm_zero: "parse_hh_mm_ss_ff ''00:00'' = Some (0, 0, 0, 0)"
  by (simp add: parse_hh_mm_ss_ff_def num_field_def digits_val_def digit_val_def is_digit_def)

lemma iso_time:
  assumes "is_digit h1" "is_digit h2" "is_digit m1" "is_digit m2" "is_digit s1" "is_digit s2"
    and "10 * digit_val h1 + digit_val h2 < 24" "10 * digit_val m1 + digit_val m2 < 60"
    "10 * digit_val s1 + digit_val s2 < 60"
  shows "parse_isoformat_time dd [h1, h2, CHR '':'', m1, m2, CHR '':'', s1, s2] =
           Some (Datetime dd (10 * digit_val h1 + digit_val h2) (10 * digit_val m1 + digit_val m2)
             (10 * digit_val s1 + digit_val s2) 0 None)"
    and "parse_isoformat_time dd ([h1, h2, CHR '':'', m1, m2, CHR '':'', s1, s2] @ ''+00:00'') =
           Some (Datetime dd (10 * digit_val h1 + digit_val h2) (10 * digit_val m1 + digit_val m2)
             (10 * digit_val s1 + digit_val s2) 0 (Some 0))"
  using assms by (simp_all add: parse_isoformat_time_def hhmmss hhmm_zero)

lemma pad2_shape:
  "n < 100 \<Longrightarrow> \<exists>a b. pad2 n = [a, b] \<and> is_digit a \<and> is_digit b \<and> 10 * digit_val a + digit_val b = n"
  by (simp add: pad2_def)

lemma pad4_shape:
  "n < 10000 \<Longrightarrow> \<exists>a b c e. pad4 n = [a, b, c, e] \<and> is_digit a \<and> is_digit b \<and> is_digit c \<and>
     is_digit e \<and> digits_val [a, b, c, e] = n"
  using pad4_value[of n] by (simp add: pad4_def digits_val_def)

lemma strp_month_all: "\<forall>m \<in> set [1..<13]. strp_month (pad2 m) = Some m"
  by code_simp

lemma strp_day_all: "\<forall>d \<in> set [1..<32]. strp_day (pad2 d) = Some d"
  by code_simp

lemma strp_month_pad2: "1 \<le> m \<Longrightarrow> m \<le> 12 \<Longrightarrow> strp_month (pad2 m) = Some m"
  using strp_month_all by simp

lemma strp_day_pad2: "1 \<le> d \<Longrightarrow> d \<le> 31 \<Longrightarrow> strp_day (pad2 d) = Some d"
  using strp_day_all by simp

lemma days_in_month_le: "days_in_month y m \<le> 31"
  by (simp add: days_in_month_def)

lemma fromiso_date_time:
  assumes "is_digit y1" "is_digit y2" "is_digit y3" "is_digit y4"
    "is_digit m1" "is_digit m2" "is_digit d1" "is_digit d2"
  shows "fromisoformat ([y1, y2, y3, y4, CHR ''-'', m1, m2, CHR ''-'', d1, d2] @ sep # t) =
     (case mk_date (digits_val [y1, y2, y3, y4]) (10 * digit_val m1 + digit_val m2)
             (10 * digit_val d1 + digit_val d2) of
        None \<Rightarrow> None
      | Some dd \<Rightarrow> parse_isoformat_time dd t)"
  using assms by (simp add: fromisoformat_def num_field_def[of 4] split: option.splits)

lemma strptime_Ymd_shape:
  assumes "is_digit y1" "is_digit y2" "is_digit y3" "is_digit y4" "is_digit m1" "is_digit m2"
  shows "strptime_Ymd [y1, y2, y3, y4, CHR ''-'', m1, m2, CHR ''-'', d1, d2] =
     (case (strp_month [m1, m2], strp_day [d1, d2]) of
        (Some m, Some d) \<Rightarrow> mk_date (digits_val [y1, y2, y3, y4]) m d
      | _ \<Rightarrow> None)"
  using assms by (simp add: strptime_Ymd_def)

lemma strptime_Ymd_us_none:
  assumes "is_digit m1" "is_digit m2"
  shows "strptime_Ymd ([m1, m2, CHR ''/''] @ rest) = None"
  using assms by (simp add: strptime_Ymd_def is_digit_def[of "CHR ''/''"])

lemma strptime_mdy_shape:
  assumes "is_digit m1" "is_digit m2" "is_digit d1" "is_digit d2" "is_digit y1" "is_digit y2"
  shows "strptime_mdy [m1, m2, CHR ''/'', d1, d2, CHR ''/'', y1, y2] =
     (case (strp_month [m1, m2], strp_day [d1, d2]) of
        (Some m, Some d) \<Rightarrow> mk_date (year_of_yy (10 * digit_val y1 + digit_val y2)) m d
      | _ \<Rightarrow> None)"
  using assms by (simp add: strptime_mdy_def digits_val_def)

lemma year_of_yy_mod:
  assumes "1969 \<le> y" "y \<le> 2068"
  shows "year_of_yy (y mod 100) = y"
proof (cases "2000 \<le> y")
  case True
  define k where "k = y - 2000"
  have y: "y = 20 * 100 + k" and k: "k \<le> 68" using True assms by (simp_all add: k_def)
  have "y mod 100 = k" unfolding y using k by (simp only: mod_mult_self3) simp
  then show ?thesis using k y by (simp add: year_of_yy_def)
next
  case False
  define k where "k = y - 1900"
  have y: "y = 19 * 100 + k" and k: "69 \<le> k" "k < 100" using False assms by (simp_all add: k_def)
  have "y mod 100 = k" unfolding y using k by (simp only: mod_mult_self3) simp
  then show ?thesis using k y by (simp add: year_of_yy_def)
qed

subsection \<open>Date normalizer\<close>

text \<open>
  Claim C8. A calendar day that all three encodings can express (the two-digit year of
  the slash format stands for 1969 to 2068) is parsed to the same date from its
  timestamp with the designator \<^verbatim>\<open>T\<close> (with or without a trailing \<^verbatim>\<open>Z\<close>), from its ISO
  form \<^verbatim>\<open>YYYY-MM-DD\<close> and from its slash form \<^verbatim>\<open>MM/DD/YY\<close>: the day itself.
\<close>

theorem parse_date_encodings_agree:
  assumes v: "valid_date (year d) (month d) (day d)"
    and y: "1969 \<le> year d" "year d \<le> 2068"
    and t: "h < 24" "mi < 60" "s < 60"
    and sfx: "sfx = [] \<or> sfx = ''Z''"
  shows "parse_date (timestamp_text d h mi s sfx) = Some d \<and>
         parse_date (strftime_ymd d) = Some d \<and>
         parse_date (us_date_text d) = Some d"
proof -
  have mr: "1 \<le> month d" "month d \<le> 12" and dr: "1 \<le> day d" "day d \<le> 31"
    using v days_in_month_le[of "year d" "month d"] by (auto simp: valid_date_def)
  have mk: "mk_date (year d) (month d) (day d) = Some d"
    using v by (cases d) (simp add: mk_date_def)
  obtain y1 y2 y3 y4 where py: "pad4 (year d) = [y1, y2, y3, y4]"
    and dy: "is_digit y1" "is_digit y2" "is_digit y3" "is_digit y4"
    and vy: "digits_val [y1, y2, y3, y4] = year d"
    using pad4_shape[of "year d"] y by auto
  obtain m1 m2 where pm: "pad2 (month d) = [m1, m2]" and dm: "is_digit m1" "is_digit m2"
    and vm: "10 * digit_val m1 + digit_val m2 = month d"
    using pad2_shape[of "month d"] mr by auto
  obtain d1 d2 where pd: "pad2 (day d) = [d1, d2]" and dd: "is_digit d1" "is_digit d2"
    and vd: "10 * digit_val d1 + digit_val d2 = day d"
    using pad2_shape[of "day d"] dr by auto
  obtain c1 c2 where pc: "pad2 (year d mod 100) = [c1, c2]" and dc: "is_digit c1" "is_digit c2"
    and vc: "10 * digit_val c1 + digit_val c2 = year d mod 100"
    using pad2_shape[of "year d mod 100"] by auto
  obtain h1 h2 where ph: "pad2 h = [h1, h2]" and dh: "is_digit h1" "is_digit h2"
    and vh: "10 * digit_val h1 + digit_val h2 = h"
    using pad2_shape[of h] t by auto
  obtain i1 i2 where pi: "pad2 mi = [i1, i2]" and di: "is_digit i1" "is_digit i2"
    and vi: "10 * digit_val i1 + digit_val i2 = mi"
    using pad2_shape[of mi] t by auto
  obtain s1 s2 where ps: "pad2 s = [s1, s2]" and ds: "is_digit s1" "is_digit s2"
    and vs: "10 * digit_val s1 + digit_val s2 = s"
    using pad2_shape[of s] t by auto
  have sm: "strp_month [m1, m2] = Some (month d)"
    using strp_month_pad2[OF mr] unfolding pm .
  have sd: "strp_day [d1, d2] = Some (day d)"
    using strp_day_pad2[OF dr] unfolding pd .
  have yy: "year_of_yy (year d mod 100) = year d"
    using y by (rule year_of_yy_mod)

  \<comment> \<open>ISO date\<close>
  have iso: "strftime_ymd d = [y1, y2, y3, y4, CHR ''-'', m1, m2, CHR ''-'', d1, d2]"
    by (simp add: strftime_ymd_def py pm pd)
  have iso_strip: "strip (strftime_ymd d) = strftime_ymd d"
    by (rule strip_id) (simp_all add: iso dy dd)
  have iso_T: "CHR ''T'' \<notin> set (strftime_ymd d)"
    by (simp add: iso dy dm dd)
  have iso_parse: "strptime_Ymd (strftime_ymd d) = Some d"
    unfolding iso by (simp add: strptime_Ymd_shape dy dm sm sd vy mk del: strp_month.simps strp_day.simps)
  have 2: "parse_date (strftime_ymd d) = Some d"
    by (simp add: parse_date_def iso_strip iso_T iso_parse)

  \<comment> \<open>US slash date\<close>
  have us: "us_date_text d = [m1, m2, CHR ''/'', d1, d2, CHR ''/'', c1, c2]"
    by (simp add: us_date_text_def pm pd pc)
  have us_strip: "strip (us_date_text d) = us_date_text d"
    by (rule strip_id) (simp_all add: us dm dc)
  have us_T: "CHR ''T'' \<notin> set (us_date_text d)"
    by (simp add: us dm dd dc)
  have us_iso: "strptime_Ymd (us_date_text d) = None"
    using strptime_Ymd_us_none[OF dm, of "[d1, d2, CHR ''/'', c1, c2]"] by (simp add: us)
  have us_parse: "strptime_mdy (us_date_text d) = Some d"
    unfolding us by (simp add: strptime_mdy_shape dm dd dc sm sd vc yy mk del: strp_month.simps strp_day.simps)
  have 3: "parse_date (us_date_text d) = Some d"
    by (simp add: parse_date_def us_strip us_T us_iso us_parse)

  \<comment> \<open>Timestamp\<close>
  let ?clock = "[h1, h2, CHR '':'', i1, i2, CHR '':'', s1, s2]"
  have ts: "timestamp_text d h mi s sfx =
      [y1, y2, y3, y4, CHR ''-'', m1, m2, CHR ''-'', d1, d2] @ CHR ''T'' # (?clock @ sfx)"
    by (simp add: timestamp_text_def clock_text_def iso ph pi ps)
  have ts_strip: "strip (timestamp_text d h mi s sfx) = timestamp_text d h mi s sfx"
    using sfx by (intro strip_id) (auto simp: ts dy ds)
  have ts_T: "CHR ''T'' \<in> set (timestamp_text d h mi s sfx)"
    by (simp add: ts)
  have ts_Z: "replace_Z (timestamp_text d h mi s sfx) =
      [y1, y2, y3, y4, CHR ''-'', m1, m2, CHR ''-'', d1, d2] @ CHR ''T'' #
        (?clock @ (if sfx = [] then [] else ''+00:00''))"
    using sfx by (auto simp: ts replace_Z_def dy dm dd dh di ds)
  have time: "parse_isoformat_time d (?clock @ (if sfx = [] then [] else ''+00:00'')) =
      Some (Datetime d h mi s 0 (if sfx = [] then None else Some 0))"
    using iso_time[OF dh di ds, of d] t by (auto simp: vh vi vs)
  have "fromisoformat (replace_Z (timestamp_text d h mi s sfx)) =
      Some (Datetime d h mi s 0 (if sfx = [] then None else Some 0))"
    unfolding ts_Z by (simp only: fromiso_date_time[OF dy dm dd] vy vm vd mk option.case time)
  then have 1: "parse_date (timestamp_text d h mi s sfx) = Some d"
    by (simp add: parse_date_def ts_strip ts_T)
  show ?thesis using 1 2 3 by simp
qed

theorem parse_date_encodings_agree_witness:
  "parse_date ''2025-12-03T21:12:30Z'' = Some (Date 2025 12 3) \<and>
   parse_date ''2025-12-03'' = Some (Date 2025 12 3) \<and>
   parse_date ''12/03/25'' = Some (Date 2025 12 3)"
  using parse_date_encodings_agree[of "Date 2025 12 3" 21 12 30 "''Z''"]
  by (simp add: timestamp_text_def clock_text_def us_date_text_def strftime_ymd_def pad2_def
      pad4_def digit_char_def valid_date_def days_in_month_def)

subsection \<open>Sleep timestamps\<close>

lemma hhmm:
  assumes "is_digit h1" "is_digit h2" "is_digit m1" "is_digit m2"
  shows "parse_hh_mm_ss_ff [h1, h2, CHR '':'', m1, m2] =
    Some (10 * digit_val h1 + digit_val h2, 10 * digit_val m1 + digit_val m2, 0, 0)"
  using assms by (simp add: parse_hh_mm_ss_ff_def)

lemma iso_time_plus:
  assumes "is_digit h1" "is_digit h2" "is_digit m1" "is_digit m2" "is_digit s1" "is_digit s2"
    and "10 * digit_val h1 + digit_val h2 < 24" "10 * digit_val m1 + digit_val m2 < 60"
    "10 * digit_val s1 + digit_val s2 < 60"
    and "is_digit o1" "is_digit o2" "is_digit o3" "is_digit o4"
    and "10 * digit_val o1 + digit_val o2 < 24" "10 * digit_val o3 + digit_val o4 < 60"
  shows "parse_isoformat_time dd ([h1, h2, CHR '':'', m1, m2, CHR '':'', s1, s2] @
            [CHR ''+'', o1, o2, CHR '':'', o3, o4]) =
           Some (Datetime dd (10 * digit_val h1 + digit_val h2) (10 * digit_val m1 + digit_val m2)
             (10 * digit_val s1 + digit_val s2) 0
             (Some ((int (10 * digit_val o1 + digit_val o2) * 3600 +
                     int (10 * digit_val o3 + digit_val o4) * 60) * 1000000)))"
  using assms by (simp add: parse_isoformat_time_def hhmmss hhmm)

lemma date_clock_digits:
  assumes "valid_date (year d) (month d) (day d)" "h < 24" "mi < 60" "s < 60"
  obtains y1 y2 y3 y4 m1 m2 d1 d2 h1 h2 i1 i2 s1 s2 where
    "strftime_ymd d = [y1, y2, y3, y4, CHR ''-'', m1, m2, CHR ''-'', d1, d2]"
    "clock_text h mi s = [h1, h2, CHR '':'', i1, i2, CHR '':'', s1, s2]"
    "is_digit y1" "is_digit y2" "is_digit y3" "is_digit y4" "is_digit m1" "is_digit m2"
    "is_digit d1" "is_digit d2" "is_digit h1" "is_digit h2" "is_digit i1" "is_digit i2"
    "is_digit s1" "is_digit s2"
    "digits_val [y1, y2, y3, y4] = year d" "10 * digit_val m1 + digit_val m2 = month d"
    "10 * digit_val d1 + digit_val d2 = day d" "10 * digit_val h1 + digit_val h2 = h"
    "10 * digit_val i1 + digit_val i2 = mi" "10 * digit_val s1 + digit_val s2 = s"
proof -
  have mr: "month d < 100" and dr: "day d < 100" and yr: "year d < 10000"
    using assms(1) days_in_month_le[of "year d" "month d"] by (auto simp: valid_date_def)
  obtain y1 y2 y3 y4 where py: "pad4 (year d) = [y1, y2, y3, y4]"
    and dy: "is_digit y1" "is_digit y2" "is_digit y3" "is_digit y4"
    and vy: "digits_val [y1, y2, y3, y4] = year d"
    using pad4_shape[OF yr] by auto
  obtain m1 m2 where pm: "pad2 (month d) = [m1, m2]" and dm: "is_digit m1" "is_digit m2"
    and vm: "10 * digit_val m1 + digit_val m2 = month d"
    using pad2_shape[OF mr] by auto
  obtain d1 d2 where pd: "pad2 (day d) = [d1, d2]" and dd: "is_digit d1" "is_digit d2"
    and vd: "10 * digit_val d1 + digit_val d2 = day d"
    using pad2_shape[OF dr] by auto
  obtain h1 h2 where ph: "pad2 h = [h1, h2]" and dh: "is_digit h1" "is_digit h2"
    and vh: "10 * digit_val h1 + digit_val h2 = h"
    using pad2_shape[of h] assms by auto
  obtain i1 i2 where pi: "pad2 mi = [i1, i2]" and di: "is_digit i1" "is_digit i2"
    and vi: "10 * digit_val i1 + digit_val i2 = mi"
    using pad2_shape[of mi] assms by auto
  obtain s1 s2 where ps: "pad2 s = [s1, s2]" and ds: "is_digit s1" "is_digit s2"
    and vs: "10 * digit_val s1 + digit_val s2 = s"
    using pad2_shape[of s] assms by auto
  show ?thesis
    by (rule that[of y1 y2 y3 y4 m1 m2 d1 d2 h1 h2 i1 i2 s1 s2])
       (simp_all add: strftime_ymd_def clock_text_def py pm pd ph pi ps dy dm dd dh di ds vy vm vd vh vi vs)
qed

lemma is_space_sp [simp]: "is_space (CHR '' '')" "\<not> is_space (CHR ''+'')" "\<not> is_space (CHR ''-'')"
  by (simp_all add: is_space_def)

text \<open>
  Claim C5, as the code has it. For a sleep timestamp \<^verbatim>\<open>YYYY-MM-DD HH:MM:SS+HHMM\<close> the
  normalizer inserts the colon into the offset and replaces the space by \<^verbatim>\<open>T\<close>, and the
  text parses to the instant with that offset. With the sign \<^verbatim>\<open>-\<close> only the space is
  replaced: the test of the source is \<^verbatim>\<open>'+' in dt_str\<close>, and no colon is inserted. A
  trailing \<^verbatim>\<open>Z\<close> gives the offset zero, and the result is \<open>None\<close> exactly when the
  ISO parser rejects the normalized text: no exception leaves the function.
\<close>

theorem sleep_datetime_normalized:
  assumes v: "valid_date (year d) (month d) (day d)" and t: "h < 24" "mi < 60" "s < 60"
    and o: "oh < 24" "om < 60"
  shows "sleep_iso_text (sleep_text d h mi s (offset4 (CHR ''+'') oh om)) =
           timestamp_text d h mi s (offset_colon (CHR ''+'') oh om) \<and>
         parse_sleep_datetime (sleep_text d h mi s (offset4 (CHR ''+'') oh om)) =
           Some (Datetime d h mi s 0 (Some ((int oh * 3600 + int om * 60) * 1000000))) \<and>
         sleep_iso_text (sleep_text d h mi s (offset4 (CHR ''-'') oh om)) =
           timestamp_text d h mi s (offset4 (CHR ''-'') oh om) \<and>
         parse_sleep_datetime (sleep_text d h mi s ''Z'') = Some (Datetime d h mi s 0 (Some 0)) \<and>
         parse_sleep_datetime (timestamp_text d h mi s ''Z'') = Some (Datetime d h mi s 0 (Some 0)) \<and>
         ((parse_sleep_datetime x = None) = (fromisoformat (replace_Z (sleep_iso_text x)) = None))"
proof -
  obtain y1 y2 y3 y4 m1 m2 d1 d2 h1 h2 i1 i2 s1 s2 where
    dt: "strftime_ymd d = [y1, y2, y3, y4, CHR ''-'', m1, m2, CHR ''-'', d1, d2]"
    and ct: "clock_text h mi s = [h1, h2, CHR '':'', i1, i2, CHR '':'', s1, s2]"
    and dg: "is_digit y1" "is_digit y2" "is_digit y3" "is_digit y4" "is_digit m1" "is_digit m2"
    "is_digit d1" "is_digit d2" "is_digit h1" "is_digit h2" "is_digit i1" "is_digit i2"
    "is_digit s1" "is_digit s2"
    and vals: "digits_val [y1, y2, y3, y4] = year d" "10 * digit_val m1 + digit_val m2 = month d"
    "10 * digit_val d1 + digit_val d2 = day d" "10 * digit_val h1 + digit_val h2 = h"
    "10 * digit_val i1 + digit_val i2 = mi" "10 * digit_val s1 + digit_val s2 = s"
    using date_clock_digits[OF v t] by metis
  obtain o1 o2 where po: "pad2 oh = [o1, o2]" and dox: "is_digit o1" "is_digit o2"
    and vo: "10 * digit_val o1 + digit_val o2 = oh"
    using pad2_shape[of oh] o by auto
  obtain o3 o4 where pp: "pad2 om = [o3, o4]" and dp: "is_digit o3" "is_digit o4"
    and vp: "10 * digit_val o3 + digit_val o4 = om"
    using pad2_shape[of om] o by auto
  have mk: "mk_date (year d) (month d) (day d) = Some d"
    using v by (cases d) (simp add: mk_date_def)
  let ?date = "[y1, y2, y3, y4, CHR ''-'', m1, m2, CHR ''-'', d1, d2]"
  let ?clock = "[h1, h2, CHR '':'', i1, i2, CHR '':'', s1, s2]"

  \<comment> \<open>plus sign\<close>
  let ?p = "?date @ CHR '' '' # ?clock @ [CHR ''+'', o1, o2, o3, o4]"
  have p: "sleep_text d h mi s (offset4 (CHR ''+'') oh om) = ?p"
    by (simp add: sleep_text_def offset4_def dt ct po pp)
  have p_strip: "strip ?p = ?p"
    by (rule strip_id) (simp_all add: dg dp)
  have p_split: "rsplit_plus ?p = (?date @ CHR '' '' # ?clock, [o1, o2, o3, o4])"
    by (simp add: rsplit_plus_def dg dox dp)
  have p_iso: "sleep_iso_text ?p = ?date @ CHR ''T'' # ?clock @ [CHR ''+'', o1, o2, CHR '':'', o3, o4]"
    unfolding sleep_iso_text_def p_strip Let_def p_split
    by (simp add: dg dox dp)
  have 1: "sleep_iso_text (sleep_text d h mi s (offset4 (CHR ''+'') oh om)) =
           timestamp_text d h mi s (offset_colon (CHR ''+'') oh om)"
    unfolding p p_iso by (simp add: timestamp_text_def offset_colon_def dt ct po pp)
  have p_Z: "replace_Z (?date @ CHR ''T'' # ?clock @ [CHR ''+'', o1, o2, CHR '':'', o3, o4]) =
      ?date @ CHR ''T'' # (?clock @ [CHR ''+'', o1, o2, CHR '':'', o3, o4])"
    by (simp add: replace_Z_def dg dox dp)
  have p_time: "parse_isoformat_time d (?clock @ [CHR ''+'', o1, o2, CHR '':'', o3, o4]) =
      Some (Datetime d h mi s 0 (Some ((int oh * 3600 + int om * 60) * 1000000)))"
    using iso_time_plus[of h1 h2 i1 i2 s1 s2 o1 o2 o3 o4 d] dg dox dp t o
    by (simp only: vals vo vp)
  have 2: "parse_sleep_datetime (sleep_text d h mi s (offset4 (CHR ''+'') oh om)) =
           Some (Datetime d h mi s 0 (Some ((int oh * 3600 + int om * 60) * 1000000)))"
    unfolding parse_sleep_datetime_def p p_iso p_Z
    by (simp only: fromiso_date_time[OF dg(1-8)] vals mk option.case p_time)

  \<comment> \<open>minus sign\<close>
  let ?m = "?date @ CHR '' '' # ?clock @ [CHR ''-'', o1, o2, o3, o4]"
  have m: "sleep_text d h mi s (offset4 (CHR ''-'') oh om) = ?m"
    by (simp add: sleep_text_def offset4_def dt ct po pp)
  have m_strip: "strip ?m = ?m"
    by (rule strip_id) (simp_all add: dg dp)
  have m_iso: "sleep_iso_text ?m = ?date @ CHR ''T'' # ?clock @ [CHR ''-'', o1, o2, o3, o4]"
    unfolding sleep_iso_text_def m_strip Let_def
    by (simp add: dg dox dp)
  have 3: "sleep_iso_text (sleep_text d h mi s (offset4 (CHR ''-'') oh om)) =
           timestamp_text d h mi s (offset4 (CHR ''-'') oh om)"
    unfolding m m_iso by (simp add: timestamp_text_def offset4_def dt ct po pp)

  \<comment> \<open>trailing Z\<close>
  have time_Z: "parse_isoformat_time d (?clock @ ''+00:00'') = Some (Datetime d h mi s 0 (Some 0))"
    using iso_time(2)[of h1 h2 i1 i2 s1 s2 d] dg t by (simp only: vals)
  let ?z = "?date @ CHR '' '' # ?clock @ ''Z''"
  have z: "sleep_text d h mi s ''Z'' = ?z"
    by (simp add: sleep_text_def dt ct)
  have z_strip: "strip ?z = ?z"
    by (rule strip_id) (simp_all add: dg)
  have z_iso: "sleep_iso_text ?z = ?date @ CHR ''T'' # ?clock @ ''Z''"
    unfolding sleep_iso_text_def z_strip Let_def
    by (simp add: dg)
  have z_Z: "replace_Z (?date @ CHR ''T'' # ?clock @ ''Z'') = ?date @ CHR ''T'' # (?clock @ ''+00:00'')"
    by (simp add: replace_Z_def dg)
  have 4: "parse_sleep_datetime (sleep_text d h mi s ''Z'') = Some (Datetime d h mi s 0 (Some 0))"
    unfolding parse_sleep_datetime_def z z_iso z_Z
    by (simp only: fromiso_date_time[OF dg(1-8)] vals mk option.case time_Z)
  let ?tz = "?date @ CHR ''T'' # ?clock @ ''Z''"
  have tz: "timestamp_text d h mi s ''Z'' = ?tz"
    by (simp add: timestamp_text_def dt ct)
  have tz_strip: "strip ?tz = ?tz"
    by (rule strip_id) (simp_all add: dg)
  have tz_iso: "sleep_iso_text ?tz = ?tz"
    unfolding sleep_iso_text_def tz_strip Let_def
    by (simp add: dg)
  have 5: "parse_sleep_datetime (timestamp_text d h mi s ''Z'') = Some (Datetime d h mi s 0 (Some 0))"
    unfolding parse_sleep_datetime_def tz tz_iso z_Z
    by (simp only: fromiso_date_time[OF dg(1-8)] vals mk option.case time_Z)
  have 6: "(parse_sleep_datetime x = None) = (fromisoformat (replace_Z (sleep_iso_text x)) = None)"
    by (simp add: parse_sleep_datetime_def)
  show ?thesis using 1 2 3 4 5 6 by blast
qed

text \<open>
  Claim C5 as stated, for either sign, fails at \<^verbatim>\<open>2025-12-03 21:12:30-0500\<close>: the
  normalized text is \<^verbatim>\<open>2025-12-03T21:12:30-0500\<close>, without a colon in the offset.
\<close>

theorem sleep_datetime_minus_offset_counterexample:
  "sleep_text (Date 2025 12 3) 21 12 30 (offset4 (CHR ''-'') 5 0) = ''2025-12-03 21:12:30-0500'' \<and>
   timestamp_text (Date 2025 12 3) 21 12 30 (offset_colon (CHR ''-'') 5 0) =
     ''2025-12-03T21:12:30-05:00'' \<and>
   sleep_iso_text ''2025-12-03 21:12:30-0500'' = ''2025-12-03T21:12:30-0500'' \<and>
   sleep_iso_text (sleep_text (Date 2025 12 3) 21 12 30 (offset4 (CHR ''-'') 5 0)) \<noteq>
     timestamp_text (Date 2025 12 3) 21 12 30 (offset_colon (CHR ''-'') 5 0)"
  by (simp add: sleep_text_def timestamp_text_def clock_text_def offset4_def offset_colon_def
      sleep_iso_text_def strftime_ymd_def pad2_def pad4_def digit_char_def strip_def is_space_def)

theorem sleep_datetime_normalized_witness:
  "sleep_iso_text ''2025-12-03 21:12:30+0530'' = ''2025-12-03T21:12:30+05:30'' \<and>
   parse_sleep_datetime ''2025-12-03 21:12:30+0530'' =
     Some (Datetime (Date 2025 12 3) 21 12 30 0 (Some 19800000000)) \<and>
   sleep_iso_text ''2025-12-03 21:12:30-0530'' = ''2025-12-03T21:12:30-0530'' \<and>
   parse_sleep_datetime ''2025-12-03 21:12:30Z'' = Some (Datetime (Date 2025 12 3) 21 12 30 0 (Some 0)) \<and>
   parse_sleep_datetime ''2025-12-03T21:12:30Z'' = Some (Datetime (Date 2025 12 3) 21 12 30 0 (Some 0)) \<and>
   parse_sleep_datetime ''not a time'' = None"
proof -
  have n: "fromisoformat (replace_Z (sleep_iso_text ''not a time'')) = None"
    by (simp add: sleep_iso_text_def strip_def is_space_def replace_Z_def fromisoformat_def)
  show ?thesis
    using sleep_datetime_normalized[of "Date 2025 12 3" 21 12 30 5 30 "''not a time''"] n
    by (simp add: sleep_text_def timestamp_text_def clock_text_def offset4_def offset_colon_def
        strftime_ymd_def pad2_def pad4_def digit_char_def valid_date_def days_in_month_def)
qed

subsection \<open>Sleep sessions and their lines\<close>

lemma sleep_line_of_None: "s_end_dt s = None \<Longrightarrow> sleep_line_of s stg = Inr None"
  by (simp add: sleep_line_of_def)




























end
